theory Spec2Isabelle
  imports Complex_Main "HOL-Library.Sublist"
begin

section \<open>Floating-point numbers\<close>

text \<open>
  A Go \<^verbatim>\<open>float64\<close> is an IEEE 754 binary64 number: a finite value, an infinity or
  NaN. \<open>Finite x\<close> stands for the finite number of value \<open>x\<close>; the two zeros are one
  value, since the detector only adds and compares and neither tells them apart.
  Addition rounds the exact sum to the nearest binary64 number, ties to the even
  significand, and overflows to an infinity (\<open>round64\<close>); a comparison with NaN is
  false. \<open>binary_exponent x\<close> is the \<open>e\<close> with \<open>2 ^ e \<le> \<bar>x\<bar> < 2 ^ (e + 1)\<close>, and
  the spacing of the binary64 numbers around \<open>x\<close> is \<open>2 ^ (e - 52)\<close>, with \<open>e\<close> no
  smaller than -1022 (subnormal numbers). \<open>float64_of_int\<close> is the conversion
  \<^verbatim>\<open>float64(n)\<close> of an integer.
\<close>

datatype float64 = Finite real | PosInf | NegInf | NaN

fun bit_length :: "nat \<Rightarrow> nat" where
  "bit_length n = (if n = 0 then 0 else Suc (bit_length (n div 2)))"

declare bit_length.simps [simp del]

definition binary_exponent :: "real \<Rightarrow> int" where
  "binary_exponent x =
     (if 1 \<le> \<bar>x\<bar> then int (bit_length (nat \<lfloor>\<bar>x\<bar>\<rfloor>)) - 1
      else (let j = bit_length (nat \<lfloor>1 / \<bar>x\<bar>\<rfloor>) - 1
            in if \<bar>x\<bar> * 2 ^ j = 1 then - int j else - int j - 1))"

definition pow2 :: "int \<Rightarrow> real" where
  "pow2 k = (if 0 \<le> k then 2 ^ nat k else 1 / 2 ^ nat (- k))"

definition round_half_even :: "real \<Rightarrow> int" where
  "round_half_even q =
     (let f = \<lfloor>q\<rfloor>; d = q - of_int f
      in if d < 1 / 2 then f
         else if 1 / 2 < d then f + 1
         else if even f then f else f + 1)"

definition round64 :: "real \<Rightarrow> float64" where
  "round64 x =
     (if x = 0 then Finite 0
      else
        (let e = max (binary_exponent x) (- 1022);
             ulp = pow2 (e - 52);
             r = of_int (round_half_even (x / ulp)) * ulp
         in if 2 ^ 1024 \<le> \<bar>r\<bar> then (if x < 0 then NegInf else PosInf)
            else Finite r))"

fun float64_add :: "float64 \<Rightarrow> float64 \<Rightarrow> float64" where
  "float64_add NaN y = NaN"
| "float64_add x NaN = NaN"
| "float64_add PosInf NegInf = NaN"
| "float64_add NegInf PosInf = NaN"
| "float64_add PosInf y = PosInf"
| "float64_add x PosInf = PosInf"
| "float64_add NegInf y = NegInf"
| "float64_add x NegInf = NegInf"
| "float64_add (Finite a) (Finite b) = round64 (a + b)"

fun float64_lt :: "float64 \<Rightarrow> float64 \<Rightarrow> bool" where
  "float64_lt NaN y = False"
| "float64_lt x NaN = False"
| "float64_lt (Finite a) (Finite b) = (a < b)"
| "float64_lt x PosInf = (x \<noteq> PosInf)"
| "float64_lt NegInf y = (y \<noteq> NegInf)"
| "float64_lt x y = False"

fun float64_le :: "float64 \<Rightarrow> float64 \<Rightarrow> bool" where
  "float64_le NaN y = False"
| "float64_le x NaN = False"
| "float64_le (Finite a) (Finite b) = (a \<le> b)"
| "float64_le x PosInf = True"
| "float64_le NegInf y = True"
| "float64_le x y = False"

definition float64_gt :: "float64 \<Rightarrow> float64 \<Rightarrow> bool" where
  "float64_gt x y = float64_lt y x"

definition float64_ge :: "float64 \<Rightarrow> float64 \<Rightarrow> bool" where
  "float64_ge x y = float64_le y x"

definition float64_of_int :: "int \<Rightarrow> float64" where
  "float64_of_int n = round64 (of_int n)"

section \<open>Dynamic values, events and errors\<close>

text \<open>
  Event data is a Go \<^verbatim>\<open>map[string]interface{}\<close>. A value of the empty interface is a
  tagged value; the tags below are those a decoded JSON body or a Go caller can supply.
  Reading a key that is absent yields the nil interface, on which every type assertion
  of the form \<^verbatim>\<open>v, ok := m[k].(T)\<close> answers \<^verbatim>\<open>ok = false\<close>: the two assertions
  the source uses are \<open>assert_string\<close> and \<open>assert_float64\<close>, with \<open>None\<close> for
  \<^verbatim>\<open>ok = false\<close>.
\<close>

datatype any =
    AString string
  | AFloat64 float64
  | ABool bool
  | AInt int
  | ANil
  | ASlice "any list"
  | AMap "(string \<times> any) list"

type_synonym event = "string \<rightharpoonup> any"

fun assert_string :: "any option \<Rightarrow> string option" where
  "assert_string (Some (AString s)) = Some s"
| "assert_string _ = None"

fun assert_float64 :: "any option \<Rightarrow> float64 option" where
  "assert_float64 (Some (AFloat64 x)) = Some x"
| "assert_float64 _ = None"

text \<open>
  A Go \<^verbatim>\<open>error\<close> is either a plain message (\<^verbatim>\<open>errors.New\<close>, \<^verbatim>\<open>fmt.Errorf\<close>
  without \<^verbatim>\<open>%w\<close>) or a message wrapping a cause (\<^verbatim>\<open>fmt.Errorf\<close> with a final
  \<^verbatim>\<open>%w\<close>). \<open>Error\<close> is the method \<^verbatim>\<open>Error()\<close>; \<open>Errorf_w msg err\<close> is
  \<^verbatim>\<open>fmt.Errorf(msg + "%w", err)\<close>.
\<close>

datatype error = errorString string | wrapError string error

fun Error :: "error \<Rightarrow> string" where
  "Error (errorString s) = s"
| "Error (wrapError msg err) = msg"

definition Errorf_w :: "string \<Rightarrow> error \<Rightarrow> error" where
  "Errorf_w msg err = wrapError (msg @ Error err) err"

section \<open>The fraud data repository\<close>

text \<open>
  Times are nanoseconds since the epoch and durations are nanoseconds, both integers.
  The interface \<^verbatim>\<open>FraudDataRepository\<close> is a record of its methods (the context
  argument carries no data the methods read). A nil map result of \<^verbatim>\<open>GetIPData\<close> is
  \<open>None\<close>.
\<close>

type_synonym Time = int
type_synonym Duration = int

definition Hour :: Duration where
  "Hour = 3600 * 1000000000"

record TransactionRecord =
  ID :: string
  Amount :: float64
  Currency :: string
  Timestamp :: Time

record FraudDataRepository =
  GetTransactionHistory :: "string \<Rightarrow> Duration \<Rightarrow> error + TransactionRecord list"
  GetIPData :: "string \<Rightarrow> error + (string \<rightharpoonup> any) option"
  GetDeviceData :: "string \<Rightarrow> error + (string \<rightharpoonup> any) option"

record InMemoryFraudDataRepository =
  transactions :: "string \<rightharpoonup> TransactionRecord list"
  ipData :: "string \<rightharpoonup> (string \<rightharpoonup> any)"
  deviceData :: "string \<rightharpoonup> (string \<rightharpoonup> any)"

definition NewInMemoryFraudDataRepository :: InMemoryFraudDataRepository where
  "NewInMemoryFraudDataRepository =
     \<lparr>transactions = Map.empty, ipData = Map.empty, deviceData = Map.empty\<rparr>"

text \<open>\<open>now\<close> is the reading of \<^verbatim>\<open>time.Now()\<close> taken inside the call.\<close>

definition InMemory_GetTransactionHistory ::
  "Time \<Rightarrow> InMemoryFraudDataRepository \<Rightarrow> string \<Rightarrow> Duration \<Rightarrow> error + TransactionRecord list" where
  "InMemory_GetTransactionHistory now r customerID lookback =
     (case transactions r customerID of
        Some txns \<Rightarrow>
          (let cutoff = now - lookback
           in Inr (filter (\<lambda>txn. Timestamp txn > cutoff) txns))
      | None \<Rightarrow> Inr [])"

definition InMemory_GetIPData ::
  "InMemoryFraudDataRepository \<Rightarrow> string \<Rightarrow> error + (string \<rightharpoonup> any) option" where
  "InMemory_GetIPData r ipAddress =
     (case ipData r ipAddress of Some data \<Rightarrow> Inr (Some data) | None \<Rightarrow> Inr None)"

definition InMemory_GetDeviceData ::
  "InMemoryFraudDataRepository \<Rightarrow> string \<Rightarrow> error + (string \<rightharpoonup> any) option" where
  "InMemory_GetDeviceData r deviceID =
     (case deviceData r deviceID of Some data \<Rightarrow> Inr (Some data) | None \<Rightarrow> Inr None)"

text \<open>The in-memory repository seen through the interface.\<close>

definition InMemory_repository :: "Time \<Rightarrow> InMemoryFraudDataRepository \<Rightarrow> FraudDataRepository" where
  "InMemory_repository now r =
     \<lparr>GetTransactionHistory = InMemory_GetTransactionHistory now r,
      GetIPData = InMemory_GetIPData r,
      GetDeviceData = InMemory_GetDeviceData r\<rparr>"

section \<open>Rules and decisions\<close>

record FraudRule =
  ID :: string
  Description :: string
  Threshold :: float64
  ScoreImpact :: float64
  Decision :: string
  Enabled :: bool
  Predicate :: "event \<Rightarrow> error + bool"

record FraudDecision =
  OverallScore :: float64
  Decision :: string
  Reasons :: "string list"

text \<open>The zero value \<^verbatim>\<open>FraudDecision{}\<close>: a nil slice has no elements.\<close>

definition FraudDecision_zero :: FraudDecision where
  "FraudDecision_zero = \<lparr>OverallScore = Finite 0, Decision = [], Reasons = []\<rparr>"

definition DefaultRules :: "FraudRule list" where
  "DefaultRules =
     [\<lparr>FraudRule.ID = ''HIGH_AMOUNT_TRANSACTION'',
       FraudRule.Description = ''Flags transactions with amounts exceeding a high threshold.'',
       Threshold = Finite 1000,
       ScoreImpact = Finite 50,
       FraudRule.Decision = ''flag'',
       Enabled = True,
       Predicate = (\<lambda>transactionData.
         case assert_float64 (transactionData ''amount'') of
           Some amount \<Rightarrow> Inr (float64_gt amount (Finite 1000))
         | None \<Rightarrow> Inr False)\<rparr>,
      \<lparr>FraudRule.ID = ''SUSPICIOUS_IP_ORIGIN'',
       FraudRule.Description = ''Flags transactions originating from suspicious IP addresses.'',
       Threshold = Finite 1,
       ScoreImpact = Finite 70,
       FraudRule.Decision = ''flag'',
       Enabled = True,
       Predicate = (\<lambda>transactionData.
         case assert_string (transactionData ''origin'') of
           Some origin \<Rightarrow> Inr (origin = ''suspicious_ip'')
         | None \<Rightarrow> Inr False)\<rparr>,
      \<lparr>FraudRule.ID = ''HIGH_VELOCITY_CUSTOMER'',
       FraudRule.Description = ''Flags customers with unusually high transaction velocity.'',
       Threshold = Finite 5,
       ScoreImpact = Finite 60,
       FraudRule.Decision = ''flag'',
       Enabled = True,
       Predicate = (\<lambda>transactionData. Inr False)\<rparr>]"

section \<open>The rule-based detector\<close>

record RuleBasedFraudDetector =
  repo :: FraudDataRepository
  rules :: "FraudRule list"

definition NewRuleBasedFraudDetector ::
  "FraudDataRepository \<Rightarrow> FraudRule list \<Rightarrow> RuleBasedFraudDetector" where
  "NewRuleBasedFraudDetector repo0 rules0 =
     (let rules1 = (if length rules0 = 0 then DefaultRules else rules0)
      in \<lparr>repo = repo0, rules = rules1\<rparr>)"

text \<open>
  The \<^verbatim>\<open>switch rule.ID\<close> of \<^verbatim>\<open>CheckTransaction\<close>: the value of \<^verbatim>\<open>isTriggered\<close>
  for one enabled rule, or the wrapped error with which the method returns at once.
  In the two repository cases \<^verbatim>\<open>isTriggered\<close> keeps its zero value \<^verbatim>\<open>false\<close> when
  the type assertion fails, and the rule's own predicate is not called.
\<close>

definition isTriggered :: "RuleBasedFraudDetector \<Rightarrow> FraudRule \<Rightarrow> event \<Rightarrow> error + bool" where
  "isTriggered d rule transactionData =
     (if FraudRule.ID rule = ''HIGH_VELOCITY_CUSTOMER'' then
        (case assert_string (transactionData ''customer_id'') of
           Some customerID \<Rightarrow>
             (case GetTransactionHistory (repo d) customerID (24 * Hour) of
                Inl repoErr \<Rightarrow>
                  Inl (Errorf_w (''failed to get transaction history for rule ''
                                   @ FraudRule.ID rule @ '': '') repoErr)
              | Inr history \<Rightarrow>
                  Inr (float64_gt (float64_of_int (int (length history))) (Threshold rule)))
         | None \<Rightarrow> Inr False)
      else if FraudRule.ID rule = ''SUSPICIOUS_IP_ORIGIN'' then
        (case assert_string (transactionData ''origin'') of
           Some origin \<Rightarrow>
             (case GetIPData (repo d) origin of
                Inl repoErr \<Rightarrow>
                  Inl (Errorf_w (''failed to get IP data for rule ''
                                   @ FraudRule.ID rule @ '': '') repoErr)
              | Inr ipData' \<Rightarrow>
                  Inr ((case ipData' of
                          None \<Rightarrow> False
                        | Some m \<Rightarrow> m ''is_vpn'' = Some (ABool True))
                       \<or> origin = ''suspicious_ip''))
         | None \<Rightarrow> Inr False)
      else
        (case Predicate rule transactionData of
           Inl err \<Rightarrow> Inl (Errorf_w (''error evaluating rule '' @ FraudRule.ID rule @ '': '') err)
         | Inr b \<Rightarrow> Inr b))"

text \<open>
  The \<^verbatim>\<open>for _, rule := range d.rules\<close> loop, from the state \<open>(totalScore, decision)\<close>.
  \<open>Inl\<close> is the early \<^verbatim>\<open>return FraudDecision{}, err\<close>; \<open>Inr\<close> is the state with which
  the loop is left, by exhausting the rules or by the \<^verbatim>\<open>break\<close> of a denying rule.
\<close>

fun rules_loop ::
  "RuleBasedFraudDetector \<Rightarrow> event \<Rightarrow> FraudRule list \<Rightarrow> float64 \<Rightarrow> FraudDecision
     \<Rightarrow> error + (float64 \<times> FraudDecision)" where
  "rules_loop d transactionData [] totalScore decision = Inr (totalScore, decision)"
| "rules_loop d transactionData (rule # rest) totalScore decision =
     (if \<not> Enabled rule then rules_loop d transactionData rest totalScore decision
      else
        (case isTriggered d rule transactionData of
           Inl err \<Rightarrow> Inl err
         | Inr triggered \<Rightarrow>
             if triggered then
               (let totalScore = float64_add totalScore (ScoreImpact rule);
                    decision = decision\<lparr>Reasons := Reasons decision @ [FraudRule.Description rule]\<rparr>
                in if FraudRule.Decision rule = ''deny'' then
                     Inr (totalScore, decision\<lparr>FraudDecision.Decision := ''deny''\<rparr>)
                   else if FraudRule.Decision rule = ''flag''
                           \<and> FraudDecision.Decision decision \<noteq> ''deny'' then
                     rules_loop d transactionData rest totalScore
                       (decision\<lparr>FraudDecision.Decision := ''flag''\<rparr>)
                   else rules_loop d transactionData rest totalScore decision)
             else rules_loop d transactionData rest totalScore decision))"

text \<open>
  \<^verbatim>\<open>CheckTransaction\<close> returns the pair Go returns: the decision and the error
  (\<open>None\<close> for nil).
\<close>

definition CheckTransaction ::
  "RuleBasedFraudDetector \<Rightarrow> event \<Rightarrow> FraudDecision \<times> error option" where
  "CheckTransaction d transactionData =
     (case rules_loop d transactionData (rules d) (Finite 0)
             \<lparr>OverallScore = Finite 0, Decision = ''approve'', Reasons = []\<rparr> of
        Inl err \<Rightarrow> (FraudDecision_zero, Some err)
      | Inr (totalScore, decision) \<Rightarrow>
          (let decision = decision\<lparr>OverallScore := totalScore\<rparr>
           in if FraudDecision.Decision decision \<noteq> ''deny'' then
                (if float64_ge totalScore (Finite 100) then
                   (decision\<lparr>FraudDecision.Decision := ''deny''\<rparr>, None)
                 else if float64_ge totalScore (Finite 50) then
                   (decision\<lparr>FraudDecision.Decision := ''flag''\<rparr>, None)
                 else (decision, None))
              else (decision, None)))"

section \<open>The risk-evaluation stub\<close>

text \<open>
  The two versions of the request differ only in the type of the reference and the
  identifiers (strings in one, integers in the other), which is the type parameter.
  Nothing is computed on the amount of a request or on the score of a response: the
  score is written as the decimal literal of the source.
\<close>

record 'i RiskEvaluateRequest =
  TransactionReference :: 'i
  Amount :: real
  Currency :: string
  CustomerID :: 'i
  MerchantID :: 'i

record RiskEvaluateResponse =
  Score :: real
  Decision :: string

record FraudService =
  detector :: RuleBasedFraudDetector
  transactionServiceURL :: string

definition Evaluate :: "FraudService \<Rightarrow> 'i RiskEvaluateRequest \<Rightarrow> RiskEvaluateResponse" where
  "Evaluate s req = \<lparr>Score = 0.1, RiskEvaluateResponse.Decision = ''approve''\<rparr>"

section \<open>Library functions the payment-link validator calls\<close>

text \<open>
  \<^verbatim>\<open>fmt.Sprintf\<close> with the verb \<^verbatim>\<open>%d\<close> prints an integer in decimal, with a
  leading minus sign when it is negative.
\<close>

fun decimal :: "nat \<Rightarrow> string" where
  "decimal n =
     (if n < 10 then [''0123456789'' ! n]
      else decimal (n div 10) @ [''0123456789'' ! (n mod 10)])"

declare decimal.simps [simp del]

definition fmt_d :: "int \<Rightarrow> string" where
  "fmt_d i = (if i < 0 then CHR ''-'' # decimal (nat (- i)) else decimal (nat i))"

text \<open>
  \<^verbatim>\<open>strconv.ParseInt(s, 10, 64)\<close>, and \<^verbatim>\<open>strconv.Atoi\<close> where \<^verbatim>\<open>int\<close> is 64 bits
  wide (the platforms the service is built for): an optional sign, then one or more
  decimal digits, within the range of a signed 64-bit integer. The caller only tests
  the error against nil, so the error is kept as its kind.
\<close>

datatype NumError = ErrSyntax | ErrRange

definition digit :: "char \<Rightarrow> nat option" where
  "digit c =
     (if 48 \<le> (of_char c :: nat) \<and> (of_char c :: nat) \<le> 57
      then Some (of_char c - 48) else None)"

fun ParseUint_loop :: "string \<Rightarrow> nat \<Rightarrow> NumError + nat" where
  "ParseUint_loop [] n = Inr n"
| "ParseUint_loop (c # cs) n =
     (case digit c of
        None \<Rightarrow> Inl ErrSyntax
      | Some dg \<Rightarrow>
          if n \<ge> (2 ^ 64 - 1) div 10 + 1 then Inl ErrRange
          else if n * 10 + dg > 2 ^ 64 - 1 then Inl ErrRange
          else ParseUint_loop cs (n * 10 + dg))"

definition ParseUint :: "string \<Rightarrow> NumError + nat" where
  "ParseUint s = (if s = [] then Inl ErrSyntax else ParseUint_loop s 0)"

definition ParseInt :: "string \<Rightarrow> NumError + int" where
  "ParseInt s =
     (if s = [] then Inl ErrSyntax
      else
        (let neg = (hd s = CHR ''-'');
             s1 = (if hd s = CHR ''+'' \<or> hd s = CHR ''-'' then tl s else s)
         in case ParseUint s1 of
              Inl ErrSyntax \<Rightarrow> Inl ErrSyntax
            | Inl ErrRange \<Rightarrow> Inl ErrRange
            | Inr un \<Rightarrow>
                if \<not> neg \<and> un \<ge> 2 ^ 63 then Inl ErrRange
                else if neg \<and> un > 2 ^ 63 then Inl ErrRange
                else Inr (if neg then - int un else int un)))"

definition Atoi :: "string \<Rightarrow> NumError + int" where
  "Atoi s = ParseInt s"

definition strings_Contains :: "string \<Rightarrow> string \<Rightarrow> bool" where
  "strings_Contains s substr = sublist substr s"

definition strings_TrimRight :: "string \<Rightarrow> string \<Rightarrow> string" where
  "strings_TrimRight s cutset = rev (dropWhile (\<lambda>c. c \<in> set cutset) (rev s))"

text \<open>
  \<^verbatim>\<open>url.Values\<close> is a \<^verbatim>\<open>map[string][]string\<close>; \<^verbatim>\<open>Get\<close> returns the first value of
  a key, or the empty string when the key has none.
\<close>

type_synonym Values = "string \<rightharpoonup> string list"

definition Values_Get :: "Values \<Rightarrow> string \<Rightarrow> string" where
  "Values_Get v key =
     (case v key of
        None \<Rightarrow> []
      | Some vs \<Rightarrow> (case vs of [] \<Rightarrow> [] | x # _ \<Rightarrow> x))"

section \<open>The world outside the service\<close>

text \<open>
  What the validator obtains from outside its own code is a parameter of the model, so
  that every theorem holds whatever these do:
  \<^item> \<open>url_Parse_Query\<close>: \<^verbatim>\<open>url.Parse\<close> followed by \<^verbatim>\<open>Query()\<close> on the parsed URL,
    or the parse error;
  \<^item> \<open>http_NewRequest\<close>: the error of \<^verbatim>\<open>http.NewRequestWithContext\<close> for a GET of the
    given URL, if any;
  \<^item> \<open>http_Do\<close>: the answer of \<^verbatim>\<open>http.DefaultClient.Do\<close> to a GET of the given URL
    (status code and body), or the transport error;
  \<^item> \<open>json_Decode\<close>: the transaction record decoded from a response body, or the
    decoding error.
  The requests handed to \<^verbatim>\<open>http.DefaultClient.Do\<close> are recorded in a log that the
  functions below take and return: an unchanged log means that nothing was sent.
\<close>

record Response =
  StatusCode :: int
  Body :: string

record TransactionResponse =
  ID :: int
  Reference :: string
  MerchantID :: int
  CustomerEmail :: string
  CustomerID :: int
  CustomerName :: string
  Amount :: int
  Currency :: string
  Status :: string
  Description :: string
  CreatedAt :: Time

record World =
  url_Parse_Query :: "string \<Rightarrow> error + Values"
  http_NewRequest :: "string \<Rightarrow> error option"
  http_Do :: "string \<Rightarrow> error + Response"
  json_Decode :: "string \<Rightarrow> error + TransactionResponse"

section \<open>The payment-link validator\<close>

definition GetTransactionDetailsByReference ::
  "World \<Rightarrow> FraudService \<Rightarrow> string \<Rightarrow> string list
     \<Rightarrow> (error + TransactionResponse) \<times> string list" where
  "GetTransactionDetailsByReference w s reference sent =
     (if transactionServiceURL s = [] then
        (Inl (errorString ''transaction service URL not configured''), sent)
      else
        (let url = strings_TrimRight (transactionServiceURL s) ''/''
                     @ ''/transactions/'' @ reference
         in case http_NewRequest w url of
              Some err \<Rightarrow>
                (Inl (Errorf_w ''failed to create request to transaction service: '' err), sent)
            | None \<Rightarrow>
                (case http_Do w url of
                   Inl err \<Rightarrow>
                     (Inl (Errorf_w ''failed to get transaction from transaction service: '' err),
                      sent @ [url])
                 | Inr resp \<Rightarrow>
                     if StatusCode resp = 404 then
                       (Inl (errorString (''transaction with reference '' @ reference
                                            @ '' not found'')),
                        sent @ [url])
                     else if StatusCode resp \<noteq> 200 then
                       (Inl (errorString (''transaction service returned status ''
                                            @ fmt_d (StatusCode resp) @ '': '' @ Body resp)),
                        sent @ [url])
                     else
                       (case json_Decode w (Body resp) of
                          Inl err \<Rightarrow>
                            (Inl (Errorf_w
                                    ''failed to decode transaction response from transaction service: ''
                                    err),
                             sent @ [url])
                        | Inr transactionResponse \<Rightarrow> (Inr transactionResponse, sent @ [url])))))"

text \<open>
  \<^verbatim>\<open>ValidatePaymentLink\<close> returns Go's triple (suspicious, reason, error), with \<open>None\<close>
  for a nil error, and the request log.
\<close>

definition ValidatePaymentLink ::
  "World \<Rightarrow> FraudService \<Rightarrow> string \<Rightarrow> string list
     \<Rightarrow> (bool \<times> string \<times> error option) \<times> string list" where
  "ValidatePaymentLink w s linkUrl sent =
     (case url_Parse_Query w linkUrl of
        Inl err \<Rightarrow> ((True, ''Invalid payment link URL format'', None), sent)
      | Inr queryParams \<Rightarrow>
          (let ref = Values_Get queryParams ''ref'';
               merchantIDStr = Values_Get queryParams ''merchant_id'';
               amountStr = Values_Get queryParams ''amount'';
               currency = Values_Get queryParams ''currency''
           in if ref = [] \<or> merchantIDStr = [] \<or> amountStr = [] \<or> currency = [] then
                ((True,
                  ''Missing required parameters in payment link (ref, merchant_id, amount, currency)'',
                  None), sent)
              else
                (case Atoi merchantIDStr of
                   Inl err \<Rightarrow> ((True, ''Invalid merchant_id format in payment link'', None), sent)
                 | Inr merchantID \<Rightarrow>
                     (case ParseInt amountStr of
                        Inl err \<Rightarrow> ((True, ''Invalid amount format in payment link'', None), sent)
                      | Inr amount \<Rightarrow>
                          (case GetTransactionDetailsByReference w s ref sent of
                             (Inl err, sent') \<Rightarrow>
                               if strings_Contains (Error err) ''not found'' then
                                 ((True,
                                   ''Transaction reference '' @ ref @ '' not found for payment link'',
                                   None), sent')
                               else
                                 ((True,
                                   ''Error fetching original transaction details: '' @ Error err,
                                   None), sent')
                           | (Inr originalTx, sent') \<Rightarrow>
                               if TransactionResponse.MerchantID originalTx \<noteq> merchantID then
                                 ((True,
                                   ''Merchant ID mismatch: link has '' @ fmt_d merchantID
                                     @ '', original has ''
                                     @ fmt_d (TransactionResponse.MerchantID originalTx),
                                   None), sent')
                               else if TransactionResponse.Amount originalTx \<noteq> amount then
                                 ((True,
                                   ''Amount mismatch: link has '' @ fmt_d amount
                                     @ '', original has ''
                                     @ fmt_d (TransactionResponse.Amount originalTx),
                                   None), sent')
                               else if TransactionResponse.Currency originalTx \<noteq> currency then
                                 ((True,
                                   ''Currency mismatch: link has '' @ currency
                                     @ '', original has ''
                                     @ TransactionResponse.Currency originalTx,
                                   None), sent')
                               else ((False, ''Payment link is legitimate'', None), sent'))))))"

section \<open>The rules that trigger\<close>

text \<open>
  The enabled rules of a list whose evaluation yields \<^verbatim>\<open>isTriggered = true\<close>, in the
  order of the list: the rules that add to the score and to the reasons when the loop
  reaches them.
\<close>

definition triggered_rules :: "RuleBasedFraudDetector \<Rightarrow> event \<Rightarrow> FraudRule list \<Rightarrow> FraudRule list" where
  "triggered_rules d transactionData rs =
     filter (\<lambda>rule. Enabled rule \<and> isTriggered d rule transactionData = Inr True) rs"

section \<open>Example data\<close>

text \<open>
  Concrete events, rules, repositories and an outside world on which the theorems
  below are instantiated. \<open>scenario_deny_rule\<close>, \<open>scenario_failing_rule\<close> and
  \<open>scenario_scoring_rule\<close> (a rule that always triggers, with the hint \<^verbatim>\<open>approve\<close>
  and a given score impact) are rules a caller of \<^verbatim>\<open>NewRuleBasedFraudDetector\<close> can
  supply; \<open>unreachable_repository\<close>
  is a repository whose backing store cannot be reached. In \<open>scenario_world\<close> the
  transaction authority knows \<^verbatim>\<open>tx1\<close> (merchant 9, amount 1000, NGN) and \<^verbatim>\<open>tx2\<close>
  (merchant 7, amount 2500, NGN), answers 500 for \<^verbatim>\<open>tx5\<close> and 404 for every other
  reference.
\<close>

definition scenario_event :: event where
  "scenario_event =
     [''customer_id'' \<mapsto> AString ''c1'', ''amount'' \<mapsto> AFloat64 (Finite 1500),
      ''currency'' \<mapsto> AString ''NGN'', ''origin'' \<mapsto> AString ''suspicious_ip'']"

definition scenario_small_event :: event where
  "scenario_small_event =
     [''customer_id'' \<mapsto> AString ''c2'', ''amount'' \<mapsto> AFloat64 (Finite 10),
      ''currency'' \<mapsto> AString ''NGN'', ''origin'' \<mapsto> AString ''clean'']"

definition unreachable_repository :: FraudDataRepository where
  "unreachable_repository =
     \<lparr>GetTransactionHistory = (\<lambda>customerID lookback. Inl (errorString ''connection refused'')),
      GetIPData = (\<lambda>ipAddress. Inl (errorString ''connection refused'')),
      GetDeviceData = (\<lambda>deviceID. Inl (errorString ''connection refused''))\<rparr>"

definition scenario_deny_rule :: FraudRule where
  "scenario_deny_rule =
     \<lparr>FraudRule.ID = ''BLOCKED_CURRENCY'',
      FraudRule.Description = ''Denies transactions in a blocked currency.'',
      Threshold = Finite 0,
      ScoreImpact = Finite 10,
      FraudRule.Decision = ''deny'',
      Enabled = True,
      Predicate = (\<lambda>transactionData.
        Inr (assert_string (transactionData ''currency'') = Some ''NGN''))\<rparr>"

definition scenario_failing_rule :: FraudRule where
  "scenario_failing_rule =
     \<lparr>FraudRule.ID = ''CUSTOM_CHECK'',
      FraudRule.Description = ''A rule whose predicate reports an error.'',
      Threshold = Finite 0,
      ScoreImpact = Finite 10,
      FraudRule.Decision = ''flag'',
      Enabled = True,
      Predicate = (\<lambda>transactionData. Inl (errorString ''unsupported event''))\<rparr>"

definition scenario_scoring_rule :: "string \<Rightarrow> float64 \<Rightarrow> FraudRule" where
  "scenario_scoring_rule name impact =
     \<lparr>FraudRule.ID = name,
      FraudRule.Description = name,
      Threshold = Finite 0,
      ScoreImpact = impact,
      FraudRule.Decision = ''approve'',
      Enabled = True,
      Predicate = (\<lambda>transactionData. Inr True)\<rparr>"

definition scenario_service :: FraudService where
  "scenario_service =
     \<lparr>detector = NewRuleBasedFraudDetector
                    (InMemory_repository 0 NewInMemoryFraudDataRepository) DefaultRules,
      transactionServiceURL = ''http://transaction-service:7000/''\<rparr>"

definition scenario_transaction :: "string \<Rightarrow> int \<Rightarrow> int \<Rightarrow> string \<Rightarrow> TransactionResponse" where
  "scenario_transaction reference merchantID amount currency =
     \<lparr>TransactionResponse.ID = 1,
      Reference = reference,
      TransactionResponse.MerchantID = merchantID,
      CustomerEmail = ''customer@example.com'',
      TransactionResponse.CustomerID = 3,
      CustomerName = ''A Customer'',
      TransactionResponse.Amount = amount,
      TransactionResponse.Currency = currency,
      Status = ''pending'',
      TransactionResponse.Description = [],
      CreatedAt = 0\<rparr>"

definition scenario_world :: World where
  "scenario_world =
     \<lparr>url_Parse_Query = (\<lambda>u.
        if u = ''https://pay.example/pay?ref=tx1&merchant_id=5&amount=1000&currency=NGN'' then
          Inr [''ref'' \<mapsto> [''tx1''], ''merchant_id'' \<mapsto> [''5''],
               ''amount'' \<mapsto> [''1000''], ''currency'' \<mapsto> [''NGN'']]
        else if u = ''https://pay.example/pay?ref=tx2&merchant_id=7&amount=2500&currency=NGN'' then
          Inr [''ref'' \<mapsto> [''tx2''], ''merchant_id'' \<mapsto> [''7''],
               ''amount'' \<mapsto> [''2500''], ''currency'' \<mapsto> [''NGN'']]
        else if u = ''https://pay.example/pay?ref=tx1&merchant_id=5&currency=NGN'' then
          Inr [''ref'' \<mapsto> [''tx1''], ''merchant_id'' \<mapsto> [''5''], ''currency'' \<mapsto> [''NGN'']]
        else if u = ''https://pay.example/pay?ref=tx1&merchant_id=five&amount=1000&currency=NGN'' then
          Inr [''ref'' \<mapsto> [''tx1''], ''merchant_id'' \<mapsto> [''five''],
               ''amount'' \<mapsto> [''1000''], ''currency'' \<mapsto> [''NGN'']]
        else if u = ''https://pay.example/pay?ref=tx1&merchant_id=5&amount=10.5&currency=NGN'' then
          Inr [''ref'' \<mapsto> [''tx1''], ''merchant_id'' \<mapsto> [''5''],
               ''amount'' \<mapsto> [''10.5''], ''currency'' \<mapsto> [''NGN'']]
        else if u = ''https://pay.example/pay?ref=tx9&merchant_id=5&amount=1000&currency=NGN'' then
          Inr [''ref'' \<mapsto> [''tx9''], ''merchant_id'' \<mapsto> [''5''],
               ''amount'' \<mapsto> [''1000''], ''currency'' \<mapsto> [''NGN'']]
        else if u = ''https://pay.example/pay?ref=tx5&merchant_id=5&amount=1000&currency=NGN'' then
          Inr [''ref'' \<mapsto> [''tx5''], ''merchant_id'' \<mapsto> [''5''],
               ''amount'' \<mapsto> [''1000''], ''currency'' \<mapsto> [''NGN'']]
        else Inl (errorString ''parse error'')),
      http_NewRequest = (\<lambda>u. None),
      http_Do = (\<lambda>u.
        if u = ''http://transaction-service:7000/transactions/tx1'' then
          Inr \<lparr>StatusCode = 200, Body = ''body of tx1''\<rparr>
        else if u = ''http://transaction-service:7000/transactions/tx2'' then
          Inr \<lparr>StatusCode = 200, Body = ''body of tx2''\<rparr>
        else if u = ''http://transaction-service:7000/transactions/tx5'' then
          Inr \<lparr>StatusCode = 500, Body = ''internal error''\<rparr>
        else Inr \<lparr>StatusCode = 404, Body = []\<rparr>),
      json_Decode = (\<lambda>b.
        if b = ''body of tx1'' then Inr (scenario_transaction ''tx1'' 9 1000 ''NGN'')
        else if b = ''body of tx2'' then Inr (scenario_transaction ''tx2'' 7 2500 ''NGN'')
        else Inl (errorString ''unexpected end of JSON input''))\<rparr>"

section \<open>Properties of the rule loop\<close>

lemma triggered_rules_Cons:
  "triggered_rules d ev (r # rs) =
     (if Enabled r \<and> isTriggered d r ev = Inr True then r # triggered_rules d ev rs
      else triggered_rules d ev rs)"
  by (simp add: triggered_rules_def)

lemma triggered_rules_Nil: "triggered_rules d ev [] = []"
  by (simp add: triggered_rules_def)

lemma rules_loop_prefix:
  assumes "\<forall>r\<in>set pre. Enabled r \<longrightarrow>
             (\<exists>b. isTriggered d r ev = Inr b \<and> (b \<longrightarrow> FraudRule.Decision r \<noteq> ''deny''))"
    and "FraudDecision.Decision dec \<noteq> ''deny''"
  shows "rules_loop d ev (pre @ rest) ts dec =
           rules_loop d ev rest
             (foldl float64_add ts (map ScoreImpact (triggered_rules d ev pre)))
             (dec\<lparr>FraudDecision.Decision :=
                     (if \<exists>r\<in>set (triggered_rules d ev pre). FraudRule.Decision r = ''flag''
                      then ''flag'' else FraudDecision.Decision dec),
                   Reasons := Reasons dec @ map FraudRule.Description (triggered_rules d ev pre)\<rparr>)"
  using assms
proof (induction pre arbitrary: ts dec)
  case Nil
  then show ?case by (simp add: triggered_rules_Nil)
next
  case (Cons r pre)
  show ?case
  proof (cases "Enabled r")
    case False
    then show ?thesis using Cons by (simp add: triggered_rules_Cons)
  next
    case True
    with Cons.prems obtain b where b: "isTriggered d r ev = Inr b"
      and nd: "b \<longrightarrow> FraudRule.Decision r \<noteq> ''deny''" by auto
    have rest: "\<forall>r\<in>set pre. Enabled r \<longrightarrow>
             (\<exists>b. isTriggered d r ev = Inr b \<and> (b \<longrightarrow> FraudRule.Decision r \<noteq> ''deny''))"
      using Cons.prems by simp
    show ?thesis
    proof (cases b)
      case False
      then show ?thesis using True b Cons.IH[OF rest Cons.prems(2)]
        by (simp add: triggered_rules_Cons)
    next
      case tb: True
      show ?thesis
      proof (cases "FraudRule.Decision r = ''flag''")
        case True
        then show ?thesis using \<open>Enabled r\<close> b tb nd Cons.prems(2)
            Cons.IH[OF rest, of "dec\<lparr>Reasons := Reasons dec @ [FraudRule.Description r], FraudDecision.Decision := ''flag''\<rparr>" "float64_add ts (ScoreImpact r)"]
          by (simp add: triggered_rules_Cons Let_def)
      next
        case False
        then show ?thesis using \<open>Enabled r\<close> b tb nd Cons.prems(2)
            Cons.IH[OF rest, of "dec\<lparr>Reasons := Reasons dec @ [FraudRule.Description r]\<rparr>" "float64_add ts (ScoreImpact r)"]
          by (simp add: triggered_rules_Cons Let_def)
      qed
    qed
  qed
qed

lemma isTriggered_repo:
  "repo d = repo d' \<Longrightarrow> isTriggered d r ev = isTriggered d' r ev"
  by (simp add: isTriggered_def cong: if_cong option.case_cong sum.case_cong)

lemma rules_loop_repo:
  "repo d = repo d' \<Longrightarrow> rules_loop d ev rs ts dec = rules_loop d' ev rs ts dec"
  by (induction rs arbitrary: ts dec)
     (simp_all add: isTriggered_repo [of d d'] Let_def split: sum.splits)

lemma triggered_rules_repo:
  "repo d = repo d' \<Longrightarrow> triggered_rules d ev rs = triggered_rules d' ev rs"
  by (simp add: triggered_rules_def isTriggered_repo [of d d'])

lemma CheckTransaction_deny_value:
  assumes "rules d = pre @ rule # post"
    and "\<forall>r\<in>set pre. Enabled r \<longrightarrow>
           (\<exists>b. isTriggered d r ev = Inr b \<and> (b \<longrightarrow> FraudRule.Decision r \<noteq> ''deny''))"
    and "Enabled rule" and "FraudRule.Decision rule = ''deny''"
    and "isTriggered d rule ev = Inr True"
  shows "CheckTransaction d ev =
           (\<lparr>OverallScore = float64_add (foldl float64_add (Finite 0) (map ScoreImpact (triggered_rules d ev pre)))
                              (ScoreImpact rule),
             Decision = ''deny'',
             Reasons = map FraudRule.Description (triggered_rules d ev pre) @ [FraudRule.Description rule]\<rparr>,
            None)"
proof -
  have "rules_loop d ev (pre @ rule # post) (Finite 0)
          \<lparr>OverallScore = Finite 0, Decision = ''approve'', Reasons = []\<rparr> =
        Inr (float64_add (foldl float64_add (Finite 0) (map ScoreImpact (triggered_rules d ev pre)))
                              (ScoreImpact rule),
             \<lparr>OverallScore = Finite 0, Decision = ''deny'',
              Reasons = map FraudRule.Description (triggered_rules d ev pre) @ [FraudRule.Description rule]\<rparr>)"
    using assms(3-5) by (simp add: rules_loop_prefix [OF assms(2)] Let_def)
  then show ?thesis
    by (simp add: CheckTransaction_def assms(1))
qed

lemma rules_loop_skip:
  assumes "Enabled rule \<longrightarrow> isTriggered d rule ev = Inr False"
  shows "rules_loop d ev (pre @ rule # post) ts dec = rules_loop d ev (pre @ post) ts dec"
  using assms
  by (induction pre arbitrary: ts dec) (simp_all add: Let_def split: sum.splits)

lemma DefaultRules_amount_not_applicable:
  assumes "rule \<in> set DefaultRules" and "FraudRule.ID rule = ''HIGH_AMOUNT_TRANSACTION''"
    and "assert_float64 (ev ''amount'') = None"
  shows "isTriggered d rule ev = Inr False"
  using assms by (auto simp add: DefaultRules_def isTriggered_def)

lemma rules_loop_error:
  "rules_loop d ev rs ts dec = Inl e \<Longrightarrow>
     \<exists>rule\<in>set rs. Enabled rule \<and> isTriggered d rule ev = Inl e"
  by (induction rs arbitrary: ts dec) (auto simp add: Let_def split: if_splits sum.splits)

lemma isTriggered_error:
  assumes "isTriggered d rule ev = Inl e"
  shows "(FraudRule.ID rule = ''HIGH_VELOCITY_CUSTOMER''
            \<and> (\<exists>customerID repoErr.
                  assert_string (ev ''customer_id'') = Some customerID
                  \<and> GetTransactionHistory (repo d) customerID (24 * Hour) = Inl repoErr
                  \<and> e = Errorf_w (''failed to get transaction history for rule ''
                                     @ FraudRule.ID rule @ '': '') repoErr))
         \<or> (FraudRule.ID rule = ''SUSPICIOUS_IP_ORIGIN''
              \<and> (\<exists>origin repoErr.
                    assert_string (ev ''origin'') = Some origin
                    \<and> GetIPData (repo d) origin = Inl repoErr
                    \<and> e = Errorf_w (''failed to get IP data for rule ''
                                       @ FraudRule.ID rule @ '': '') repoErr))
         \<or> (FraudRule.ID rule \<noteq> ''HIGH_VELOCITY_CUSTOMER''
              \<and> FraudRule.ID rule \<noteq> ''SUSPICIOUS_IP_ORIGIN''
              \<and> (\<exists>err. Predicate rule ev = Inl err
                    \<and> e = Errorf_w (''error evaluating rule '' @ FraudRule.ID rule @ '': '') err))"
  using assms
  by (auto simp add: isTriggered_def split: if_splits option.splits sum.splits)

lemma CheckTransaction_error:
  assumes "snd (CheckTransaction d ev) = Some e"
  shows "fst (CheckTransaction d ev) = FraudDecision_zero
         \<and> (\<exists>rule\<in>set (rules d). Enabled rule \<and> isTriggered d rule ev = Inl e)"
proof (cases "rules_loop d ev (rules d) (Finite 0) \<lparr>OverallScore = Finite 0, Decision = ''approve'', Reasons = []\<rparr>")
  case (Inl err)
  with assms have "err = e" by (simp add: CheckTransaction_def)
  with Inl show ?thesis
    using rules_loop_error [of d ev "rules d" "Finite 0" _ e] by (simp add: CheckTransaction_def)
next
  case (Inr st)
  with assms show ?thesis
    by (simp add: CheckTransaction_def Let_def split: prod.splits if_splits)
qed

lemma rules_loop_fails:
  assumes "\<forall>r\<in>set pre. Enabled r \<longrightarrow>
             (\<exists>b. isTriggered d r ev = Inr b \<and> (b \<longrightarrow> FraudRule.Decision r \<noteq> ''deny''))"
    and "Enabled rule" and "isTriggered d rule ev = Inl e"
  shows "rules_loop d ev (pre @ rule # post) (Finite 0)
           \<lparr>OverallScore = Finite 0, Decision = ''approve'', Reasons = []\<rparr> = Inl e"
  using assms(2,3) by (simp add: rules_loop_prefix [OF assms(1)])

lemma CheckTransaction_no_early_exit:
  assumes "\<forall>r\<in>set (rules d). Enabled r \<longrightarrow>
           (\<exists>b. isTriggered d r ev = Inr b \<and> (b \<longrightarrow> FraudRule.Decision r \<noteq> ''deny''))"
  shows "CheckTransaction d ev =
           (\<lparr>OverallScore = foldl float64_add (Finite 0) (map ScoreImpact (triggered_rules d ev (rules d))),
             Decision =
               (if float64_ge (foldl float64_add (Finite 0)
                                 (map ScoreImpact (triggered_rules d ev (rules d)))) (Finite 100)
                then ''deny''
                else if float64_ge (foldl float64_add (Finite 0)
                                 (map ScoreImpact (triggered_rules d ev (rules d)))) (Finite 50)
                then ''flag''
                else if \<exists>r\<in>set (triggered_rules d ev (rules d)). FraudRule.Decision r = ''flag''
                     then ''flag'' else ''approve''),
             Reasons = map FraudRule.Description (triggered_rules d ev (rules d))\<rparr>,
            None)"
proof -
  have "rules_loop d ev (rules d @ []) (Finite 0) \<lparr>OverallScore = Finite 0, Decision = ''approve'', Reasons = []\<rparr> =
        Inr (foldl float64_add (Finite 0) (map ScoreImpact (triggered_rules d ev (rules d))),
             \<lparr>OverallScore = Finite 0,
              Decision = (if \<exists>r\<in>set (triggered_rules d ev (rules d)). FraudRule.Decision r = ''flag''
                          then ''flag'' else ''approve''),
              Reasons = map FraudRule.Description (triggered_rules d ev (rules d))\<rparr>)"
    by (subst rules_loop_prefix [OF assms]) simp_all
  then show ?thesis
    by (simp add: CheckTransaction_def)
qed

lemmas detector_simps = CheckTransaction_def NewRuleBasedFraudDetector_def DefaultRules_def
  isTriggered_def InMemory_repository_def InMemory_GetTransactionHistory_def
  InMemory_GetIPData_def NewInMemoryFraudDataRepository_def triggered_rules_def
  scenario_event_def scenario_small_event_def scenario_deny_rule_def scenario_failing_rule_def
  scenario_scoring_rule_def
  unreachable_repository_def Errorf_w_def FraudDecision_zero_def Hour_def
  round64_def binary_exponent_def pow2_def round_half_even_def bit_length.simps
  float64_gt_def float64_ge_def float64_of_int_def Let_def

section \<open>The constructor\<close>

text \<open>
  C10. \<^verbatim>\<open>NewRuleBasedFraudDetector\<close> called with an empty rule list installs the
  built-in \<open>DefaultRules\<close>; called with a non-empty list it installs exactly that
  list; so the catalog of a constructed detector is never empty. The repository is
  stored as given.
\<close>

theorem NewRuleBasedFraudDetector_rules:
  "rules (NewRuleBasedFraudDetector repo0 []) = DefaultRules
   \<and> (rs \<noteq> [] \<longrightarrow> rules (NewRuleBasedFraudDetector repo0 rs) = rs)
   \<and> rules (NewRuleBasedFraudDetector repo0 rs) \<noteq> []
   \<and> repo (NewRuleBasedFraudDetector repo0 rs) = repo0"
  by (simp add: NewRuleBasedFraudDetector_def DefaultRules_def)

theorem NewRuleBasedFraudDetector_rules_witness:
  "rules (NewRuleBasedFraudDetector (InMemory_repository 0 NewInMemoryFraudDataRepository) [])
     = DefaultRules
   \<and> [hd DefaultRules] \<noteq> []
   \<and> rules (NewRuleBasedFraudDetector (InMemory_repository 0 NewInMemoryFraudDataRepository)
        [hd DefaultRules]) = [hd DefaultRules]
   \<and> rules (NewRuleBasedFraudDetector (InMemory_repository 0 NewInMemoryFraudDataRepository)
        [hd DefaultRules]) \<noteq> []"
  using NewRuleBasedFraudDetector_rules
    [of "InMemory_repository 0 NewInMemoryFraudDataRepository" "[hd DefaultRules]"]
  by simp

section \<open>Early exit on a denying rule\<close>

text \<open>
  C1. Let the catalog be \<open>pre @ rule # post\<close>, where the loop reaches \<open>rule\<close> (every
  enabled rule of \<open>pre\<close> evaluates without error, and none that triggers has the hint
  \<^verbatim>\<open>deny\<close>), and \<open>rule\<close> is enabled, has the hint \<^verbatim>\<open>deny\<close> and triggers. Then
  \<^verbatim>\<open>CheckTransaction\<close> returns no error and the decision \<^verbatim>\<open>deny\<close>; the score is the
  \<^verbatim>\<open>float64\<close> sum, accumulated in catalog order, of the impacts of the rules of \<open>pre\<close> that trigger
  and of \<open>rule\<close>; the reasons are their descriptions in catalog order. The rules of
  \<open>post\<close> contribute nothing: the result is the same for every other list \<open>post'\<close>
  of later rules.
\<close>

theorem CheckTransaction_deny_short_circuit:
  assumes "rules d = pre @ rule # post"
    and "\<forall>r\<in>set pre. Enabled r \<longrightarrow>
           (\<exists>b. isTriggered d r ev = Inr b \<and> (b \<longrightarrow> FraudRule.Decision r \<noteq> ''deny''))"
    and "Enabled rule" and "FraudRule.Decision rule = ''deny''"
    and "isTriggered d rule ev = Inr True"
  shows "CheckTransaction d ev =
           (\<lparr>OverallScore = float64_add (foldl float64_add (Finite 0) (map ScoreImpact (triggered_rules d ev pre)))
                              (ScoreImpact rule),
             Decision = ''deny'',
             Reasons = map FraudRule.Description (triggered_rules d ev pre) @ [FraudRule.Description rule]\<rparr>,
            None)
         \<and> CheckTransaction (d\<lparr>rules := pre @ rule # post'\<rparr>) ev = CheckTransaction d ev"
proof -
  let ?d' = "d\<lparr>rules := pre @ rule # post'\<rparr>"
  have r: "repo ?d' = repo d" by simp
  have a2: "\<forall>r\<in>set pre. Enabled r \<longrightarrow>
           (\<exists>b. isTriggered ?d' r ev = Inr b \<and> (b \<longrightarrow> FraudRule.Decision r \<noteq> ''deny''))"
    using assms(2) isTriggered_repo [OF r] by simp
  have a5: "isTriggered ?d' rule ev = Inr True"
    using assms(5) isTriggered_repo [OF r] by simp
  have "rules ?d' = pre @ rule # post'" by simp
  from CheckTransaction_deny_value [OF this a2 assms(3,4) a5]
       CheckTransaction_deny_value [OF assms]
  show ?thesis by (simp add: triggered_rules_repo [OF r])
qed

theorem CheckTransaction_deny_short_circuit_witness:
  "CheckTransaction
     (NewRuleBasedFraudDetector (InMemory_repository 0 NewInMemoryFraudDataRepository)
        (hd DefaultRules # scenario_deny_rule # tl DefaultRules))
     scenario_event =
     (\<lparr>OverallScore = Finite 60,
       Decision = ''deny'',
       Reasons = [''Flags transactions with amounts exceeding a high threshold.'',
                  ''Denies transactions in a blocked currency.'']\<rparr>,
      None)
   \<and> CheckTransaction
     (NewRuleBasedFraudDetector (InMemory_repository 0 NewInMemoryFraudDataRepository)
        [hd DefaultRules, scenario_deny_rule])
     scenario_event =
     (\<lparr>OverallScore = Finite 60,
       Decision = ''deny'',
       Reasons = [''Flags transactions with amounts exceeding a high threshold.'',
                  ''Denies transactions in a blocked currency.'']\<rparr>,
      None)"
proof -
  let ?d = "NewRuleBasedFraudDetector (InMemory_repository 0 NewInMemoryFraudDataRepository)
              (hd DefaultRules # scenario_deny_rule # tl DefaultRules)"
  have r: "rules ?d = [hd DefaultRules] @ scenario_deny_rule # tl DefaultRules"
    by (simp add: NewRuleBasedFraudDetector_def)
  have pre: "\<forall>r\<in>set [hd DefaultRules]. Enabled r \<longrightarrow>
               (\<exists>b. isTriggered ?d r scenario_event = Inr b
                     \<and> (b \<longrightarrow> FraudRule.Decision r \<noteq> ''deny''))"
    by (auto simp add: detector_simps)
  have en: "Enabled scenario_deny_rule" and dn: "FraudRule.Decision scenario_deny_rule = ''deny''"
    by (simp_all add: scenario_deny_rule_def)
  have tr: "isTriggered ?d scenario_deny_rule scenario_event = Inr True"
    by (simp add: detector_simps)
  from CheckTransaction_deny_short_circuit [OF r pre en dn tr, of "[]"]
  show ?thesis
    by (simp add: detector_simps)
qed

section \<open>Score thresholds\<close>

text \<open>
  C2. When the loop runs through the whole catalog without an early exit (every enabled
  rule evaluates without error, and none that triggers has the hint \<^verbatim>\<open>deny\<close>),
  \<^verbatim>\<open>CheckTransaction\<close> returns no error, the accumulated score and the descriptions of
  the rules that triggered, and the decision is \<^verbatim>\<open>deny\<close> if the score is at least
  100, otherwise \<^verbatim>\<open>flag\<close> if the score is at least 50, otherwise what the hints
  produced: \<^verbatim>\<open>flag\<close> if a rule that triggered has the hint \<^verbatim>\<open>flag\<close>, else
  \<^verbatim>\<open>approve\<close>. The two thresholds read the total score only. The score is the
  \<^verbatim>\<open>float64\<close> the loop accumulates, each addition rounded: rules of impacts
  \<open>50 - 2 ^ -47\<close> and \<open>2 ^ -48\<close> give the score 50 and the decision \<^verbatim>\<open>flag\<close>,
  and rules of impacts 33.4, 33.3 and 33.3 give a score just below 100 and the decision
  \<^verbatim>\<open>flag\<close>.
\<close>

theorem CheckTransaction_score_thresholds:
  assumes "\<forall>r\<in>set (rules d). Enabled r \<longrightarrow>
           (\<exists>b. isTriggered d r ev = Inr b \<and> (b \<longrightarrow> FraudRule.Decision r \<noteq> ''deny''))"
  shows "CheckTransaction d ev =
           (\<lparr>OverallScore = foldl float64_add (Finite 0) (map ScoreImpact (triggered_rules d ev (rules d))),
             Decision =
               (if float64_ge (foldl float64_add (Finite 0)
                                 (map ScoreImpact (triggered_rules d ev (rules d)))) (Finite 100)
                then ''deny''
                else if float64_ge (foldl float64_add (Finite 0)
                                 (map ScoreImpact (triggered_rules d ev (rules d)))) (Finite 50)
                then ''flag''
                else if \<exists>r\<in>set (triggered_rules d ev (rules d)). FraudRule.Decision r = ''flag''
                     then ''flag'' else ''approve''),
             Reasons = map FraudRule.Description (triggered_rules d ev (rules d))\<rparr>,
            None)"
  using assms by (rule CheckTransaction_no_early_exit)

theorem CheckTransaction_score_thresholds_witness:
  "CheckTransaction
     (NewRuleBasedFraudDetector (InMemory_repository 0 NewInMemoryFraudDataRepository) DefaultRules)
     scenario_event =
     (\<lparr>OverallScore = Finite 120,
       Decision = ''deny'',
       Reasons = [''Flags transactions with amounts exceeding a high threshold.'',
                  ''Flags transactions originating from suspicious IP addresses.'']\<rparr>,
      None)
   \<and> CheckTransaction
     (NewRuleBasedFraudDetector (InMemory_repository 0 NewInMemoryFraudDataRepository) DefaultRules)
     scenario_small_event =
     (\<lparr>OverallScore = Finite 0, Decision = ''approve'', Reasons = []\<rparr>, None)
   \<and> CheckTransaction
     (NewRuleBasedFraudDetector (InMemory_repository 0 NewInMemoryFraudDataRepository) DefaultRules)
     (scenario_small_event(''amount'' \<mapsto> AFloat64 (Finite 1500))) =
     (\<lparr>OverallScore = Finite 50,
       Decision = ''flag'',
       Reasons = [''Flags transactions with amounts exceeding a high threshold.'']\<rparr>,
      None)
   \<and> CheckTransaction
     (NewRuleBasedFraudDetector (InMemory_repository 0 NewInMemoryFraudDataRepository)
        [scenario_scoring_rule ''P1'' (Finite (50 - 1 / 2 ^ 47)),
         scenario_scoring_rule ''P2'' (Finite (1 / 2 ^ 48))])
     Map.empty =
     (\<lparr>OverallScore = Finite 50, Decision = ''flag'', Reasons = [''P1'', ''P2'']\<rparr>, None)
   \<and> CheckTransaction
     (NewRuleBasedFraudDetector (InMemory_repository 0 NewInMemoryFraudDataRepository)
        [scenario_scoring_rule ''P1'' (Finite (50 - 1 / 2 ^ 47))])
     Map.empty =
     (\<lparr>OverallScore = Finite (50 - 1 / 2 ^ 47), Decision = ''approve'', Reasons = [''P1'']\<rparr>,
      None)
   \<and> CheckTransaction
     (NewRuleBasedFraudDetector (InMemory_repository 0 NewInMemoryFraudDataRepository)
        [scenario_scoring_rule ''Q1'' (round64 (334 / 10)),
         scenario_scoring_rule ''Q2'' (round64 (333 / 10)),
         scenario_scoring_rule ''Q3'' (round64 (333 / 10))])
     Map.empty =
     (\<lparr>OverallScore = Finite (100 - 1 / 2 ^ 46), Decision = ''flag'',
       Reasons = [''Q1'', ''Q2'', ''Q3'']\<rparr>,
      None)"
proof -
  let ?d = "NewRuleBasedFraudDetector (InMemory_repository 0 NewInMemoryFraudDataRepository)
              DefaultRules"
  let ?d2 = "NewRuleBasedFraudDetector (InMemory_repository 0 NewInMemoryFraudDataRepository)
               [scenario_scoring_rule ''P1'' (Finite (50 - 1 / 2 ^ 47)),
                scenario_scoring_rule ''P2'' (Finite (1 / 2 ^ 48))]"
  let ?d1 = "NewRuleBasedFraudDetector (InMemory_repository 0 NewInMemoryFraudDataRepository)
               [scenario_scoring_rule ''P1'' (Finite (50 - 1 / 2 ^ 47))]"
  let ?d3 = "NewRuleBasedFraudDetector (InMemory_repository 0 NewInMemoryFraudDataRepository)
               [scenario_scoring_rule ''Q1'' (round64 (334 / 10)),
                scenario_scoring_rule ''Q2'' (round64 (333 / 10)),
                scenario_scoring_rule ''Q3'' (round64 (333 / 10))]"
  have h3: "\<forall>r\<in>set (rules ?d3). Enabled r \<longrightarrow>
             (\<exists>b. isTriggered ?d3 r Map.empty = Inr b
                   \<and> (b \<longrightarrow> FraudRule.Decision r \<noteq> ''deny''))"
    by (auto simp add: NewRuleBasedFraudDetector_def isTriggered_def scenario_scoring_rule_def)
  have w3: "CheckTransaction ?d3 Map.empty =
              (\<lparr>OverallScore = Finite (100 - 1 / 2 ^ 46), Decision = ''flag'',
                Reasons = [''Q1'', ''Q2'', ''Q3'']\<rparr>, None)"
    using CheckTransaction_score_thresholds [OF h3]
    by (simp add: NewRuleBasedFraudDetector_def isTriggered_def scenario_scoring_rule_def
          triggered_rules_def round64_def binary_exponent_def pow2_def round_half_even_def
          bit_length.simps float64_ge_def Let_def)
  have h2: "\<forall>r\<in>set (rules ?d2). Enabled r \<longrightarrow>
             (\<exists>b. isTriggered ?d2 r Map.empty = Inr b
                   \<and> (b \<longrightarrow> FraudRule.Decision r \<noteq> ''deny''))"
    by (auto simp add: NewRuleBasedFraudDetector_def isTriggered_def scenario_scoring_rule_def)
  have h1: "\<forall>r\<in>set (rules ?d1). Enabled r \<longrightarrow>
             (\<exists>b. isTriggered ?d1 r Map.empty = Inr b
                   \<and> (b \<longrightarrow> FraudRule.Decision r \<noteq> ''deny''))"
    by (auto simp add: NewRuleBasedFraudDetector_def isTriggered_def scenario_scoring_rule_def)
  have w2: "CheckTransaction ?d2 Map.empty =
              (\<lparr>OverallScore = Finite 50, Decision = ''flag'', Reasons = [''P1'', ''P2'']\<rparr>, None)"
    using CheckTransaction_score_thresholds [OF h2]
    by (simp add: NewRuleBasedFraudDetector_def isTriggered_def scenario_scoring_rule_def
          triggered_rules_def round64_def binary_exponent_def pow2_def round_half_even_def
          bit_length.simps float64_ge_def Let_def)
  have w1: "CheckTransaction ?d1 Map.empty =
              (\<lparr>OverallScore = Finite (50 - 1 / 2 ^ 47), Decision = ''approve'',
                Reasons = [''P1'']\<rparr>, None)"
    using CheckTransaction_score_thresholds [OF h1]
    by (simp add: NewRuleBasedFraudDetector_def isTriggered_def scenario_scoring_rule_def
          triggered_rules_def round64_def binary_exponent_def pow2_def round_half_even_def
          bit_length.simps float64_ge_def Let_def)
  have h: "\<forall>r\<in>set (rules ?d). Enabled r \<longrightarrow>
             (\<exists>b. isTriggered ?d r ev = Inr b \<and> (b \<longrightarrow> FraudRule.Decision r \<noteq> ''deny''))"
    for ev
    by (auto simp add: detector_simps split: option.splits)
  from CheckTransaction_score_thresholds [OF h [of scenario_event]]
       CheckTransaction_score_thresholds [OF h [of scenario_small_event]]
       CheckTransaction_score_thresholds [OF h [of "scenario_small_event(''amount'' \<mapsto> AFloat64 (Finite 1500))"]]
  have "CheckTransaction ?d scenario_event =
          (\<lparr>OverallScore = Finite 120,
            Decision = ''deny'',
            Reasons = [''Flags transactions with amounts exceeding a high threshold.'',
                       ''Flags transactions originating from suspicious IP addresses.'']\<rparr>,
           None)
        \<and> CheckTransaction ?d scenario_small_event =
          (\<lparr>OverallScore = Finite 0, Decision = ''approve'', Reasons = []\<rparr>, None)
        \<and> CheckTransaction ?d (scenario_small_event(''amount'' \<mapsto> AFloat64 (Finite 1500))) =
          (\<lparr>OverallScore = Finite 50,
            Decision = ''flag'',
            Reasons = [''Flags transactions with amounts exceeding a high threshold.'']\<rparr>,
           None)"
    by (simp add: detector_simps)
  with w2 w1 w3 show ?thesis
    by simp
qed

section \<open>Missing and mistyped fields\<close>

text \<open>
  C5. When the field a rule reads is missing from the event or has another dynamic type
  (\<^verbatim>\<open>amount\<close> not a \<^verbatim>\<open>float64\<close> for the default rule \<^verbatim>\<open>HIGH_AMOUNT_TRANSACTION\<close>,
  \<^verbatim>\<open>origin\<close> not a string for a rule named \<^verbatim>\<open>SUSPICIOUS_IP_ORIGIN\<close>, \<^verbatim>\<open>customer_id\<close>
  not a string for a rule named \<^verbatim>\<open>HIGH_VELOCITY_CUSTOMER\<close>), the rule evaluates to
  not triggered, without an error and whatever the repository would answer, and
  \<^verbatim>\<open>CheckTransaction\<close> returns what it returns for the catalog without that rule.
  The evaluation goes on with the remaining rules: when none of them exits early, every
  remaining enabled rule that triggers adds its impact to the score and its description
  to the reasons, in catalog order, and the decision follows from that score and from
  their hints. No branch of the model is a panic: every type assertion of the source
  has the two-result form.
\<close>

theorem CheckTransaction_missing_field_not_applicable:
  assumes "rules d = pre @ rule # post"
    and "(rule \<in> set DefaultRules \<and> FraudRule.ID rule = ''HIGH_AMOUNT_TRANSACTION''
            \<and> assert_float64 (ev ''amount'') = None)
         \<or> (FraudRule.ID rule = ''SUSPICIOUS_IP_ORIGIN'' \<and> assert_string (ev ''origin'') = None)
         \<or> (FraudRule.ID rule = ''HIGH_VELOCITY_CUSTOMER''
              \<and> assert_string (ev ''customer_id'') = None)"
  shows "isTriggered d rule ev = Inr False
         \<and> CheckTransaction d ev = CheckTransaction (d\<lparr>rules := pre @ post\<rparr>) ev
         \<and> ((\<forall>r\<in>set (pre @ post). Enabled r \<longrightarrow>
                (\<exists>b. isTriggered d r ev = Inr b \<and> (b \<longrightarrow> FraudRule.Decision r \<noteq> ''deny''))) \<longrightarrow>
             CheckTransaction d ev =
               (\<lparr>OverallScore =
                  foldl float64_add (Finite 0) (map ScoreImpact (triggered_rules d ev (pre @ post))),
                Decision =
                  (if float64_ge (foldl float64_add (Finite 0)
                                    (map ScoreImpact (triggered_rules d ev (pre @ post))))
                        (Finite 100)
                   then ''deny''
                   else if float64_ge (foldl float64_add (Finite 0)
                                    (map ScoreImpact (triggered_rules d ev (pre @ post))))
                             (Finite 50)
                   then ''flag''
                   else if \<exists>r\<in>set (triggered_rules d ev (pre @ post)).
                             FraudRule.Decision r = ''flag''
                        then ''flag'' else ''approve''),
                Reasons = map FraudRule.Description (triggered_rules d ev (pre @ post))\<rparr>,
               None))"
proof -
  let ?d' = "d\<lparr>rules := pre @ post\<rparr>"
  have nt: "isTriggered d rule ev = Inr False"
    using assms(2) DefaultRules_amount_not_applicable [of rule ev d]
    by (auto simp add: isTriggered_def)
  have r: "repo ?d' = repo d" by simp
  then have "rules_loop ?d' ev (pre @ post) ts dec = rules_loop d ev (pre @ post) ts dec"
    for ts dec
    by (rule rules_loop_repo)
  with nt have eq: "CheckTransaction d ev = CheckTransaction ?d' ev"
    by (simp add: CheckTransaction_def assms(1) rules_loop_skip)
  have "CheckTransaction d ev =
               (\<lparr>OverallScore =
                  foldl float64_add (Finite 0) (map ScoreImpact (triggered_rules d ev (pre @ post))),
                Decision =
                  (if float64_ge (foldl float64_add (Finite 0)
                                    (map ScoreImpact (triggered_rules d ev (pre @ post))))
                        (Finite 100)
                   then ''deny''
                   else if float64_ge (foldl float64_add (Finite 0)
                                    (map ScoreImpact (triggered_rules d ev (pre @ post))))
                             (Finite 50)
                   then ''flag''
                   else if \<exists>r\<in>set (triggered_rules d ev (pre @ post)).
                             FraudRule.Decision r = ''flag''
                        then ''flag'' else ''approve''),
                Reasons = map FraudRule.Description (triggered_rules d ev (pre @ post))\<rparr>,
               None)"
    if h: "\<forall>r\<in>set (pre @ post). Enabled r \<longrightarrow>
                (\<exists>b. isTriggered d r ev = Inr b \<and> (b \<longrightarrow> FraudRule.Decision r \<noteq> ''deny''))"
  proof -
    have "\<forall>r\<in>set (rules ?d'). Enabled r \<longrightarrow>
            (\<exists>b. isTriggered ?d' r ev = Inr b \<and> (b \<longrightarrow> FraudRule.Decision r \<noteq> ''deny''))"
      using h isTriggered_repo [OF r] by simp
    from CheckTransaction_no_early_exit [OF this] eq show ?thesis
      by (simp add: triggered_rules_repo [OF r])
  qed
  with nt eq show ?thesis
    by blast
qed

theorem CheckTransaction_missing_field_not_applicable_witness:
  "isTriggered (NewRuleBasedFraudDetector unreachable_repository DefaultRules)
     (DefaultRules ! 0) [''amount'' \<mapsto> AString ''1500''] = Inr False
   \<and> isTriggered (NewRuleBasedFraudDetector unreachable_repository DefaultRules)
     (DefaultRules ! 1) [''amount'' \<mapsto> AString ''1500''] = Inr False
   \<and> isTriggered (NewRuleBasedFraudDetector unreachable_repository DefaultRules)
     (DefaultRules ! 2) [''amount'' \<mapsto> AString ''1500''] = Inr False
   \<and> CheckTransaction
       (NewRuleBasedFraudDetector (InMemory_repository 0 NewInMemoryFraudDataRepository)
          DefaultRules)
       [''amount'' \<mapsto> AString ''1500'', ''origin'' \<mapsto> AString ''suspicious_ip''] =
      (\<lparr>OverallScore = Finite 70,
        Decision = ''flag'',
        Reasons = [''Flags transactions originating from suspicious IP addresses.'']\<rparr>,
       None)
   \<and> CheckTransaction (NewRuleBasedFraudDetector unreachable_repository DefaultRules)
       [''amount'' \<mapsto> AFloat64 (Finite 1500), ''origin'' \<mapsto> AFloat64 (Finite 1)] =
      (\<lparr>OverallScore = Finite 50,
        Decision = ''flag'',
        Reasons = [''Flags transactions with amounts exceeding a high threshold.'']\<rparr>,
       None)"
proof -
  let ?u = "NewRuleBasedFraudDetector unreachable_repository DefaultRules"
  let ?m = "NewRuleBasedFraudDetector (InMemory_repository 0 NewInMemoryFraudDataRepository)
              DefaultRules"
  let ?ev0 = "[''amount'' \<mapsto> AString ''1500'']"
  let ?ev1 = "[''amount'' \<mapsto> AString ''1500'', ''origin'' \<mapsto> AString ''suspicious_ip'']"
  let ?ev2 = "[''amount'' \<mapsto> AFloat64 (Finite 1500), ''origin'' \<mapsto> AFloat64 (Finite 1)]"
  have u0: "rules ?u = [] @ (DefaultRules ! 0) # [DefaultRules ! 1, DefaultRules ! 2]"
    and u1: "rules ?u = [DefaultRules ! 0] @ (DefaultRules ! 1) # [DefaultRules ! 2]"
    and u2: "rules ?u = [DefaultRules ! 0, DefaultRules ! 1] @ (DefaultRules ! 2) # []"
    and m0: "rules ?m = [] @ (DefaultRules ! 0) # [DefaultRules ! 1, DefaultRules ! 2]"
    by (simp_all add: NewRuleBasedFraudDetector_def DefaultRules_def)
  have f0: "(DefaultRules ! 0 \<in> set DefaultRules
               \<and> FraudRule.ID (DefaultRules ! 0) = ''HIGH_AMOUNT_TRANSACTION''
               \<and> assert_float64 (?ev0 ''amount'') = None)
            \<or> (FraudRule.ID (DefaultRules ! 0) = ''SUSPICIOUS_IP_ORIGIN''
                 \<and> assert_string (?ev0 ''origin'') = None)
            \<or> (FraudRule.ID (DefaultRules ! 0) = ''HIGH_VELOCITY_CUSTOMER''
                 \<and> assert_string (?ev0 ''customer_id'') = None)"
    by (simp add: DefaultRules_def)
  have f1: "(DefaultRules ! 1 \<in> set DefaultRules
               \<and> FraudRule.ID (DefaultRules ! 1) = ''HIGH_AMOUNT_TRANSACTION''
               \<and> assert_float64 (?ev0 ''amount'') = None)
            \<or> (FraudRule.ID (DefaultRules ! 1) = ''SUSPICIOUS_IP_ORIGIN''
                 \<and> assert_string (?ev0 ''origin'') = None)
            \<or> (FraudRule.ID (DefaultRules ! 1) = ''HIGH_VELOCITY_CUSTOMER''
                 \<and> assert_string (?ev0 ''customer_id'') = None)"
    by (simp add: DefaultRules_def)
  have f2: "(DefaultRules ! 2 \<in> set DefaultRules
               \<and> FraudRule.ID (DefaultRules ! 2) = ''HIGH_AMOUNT_TRANSACTION''
               \<and> assert_float64 (?ev0 ''amount'') = None)
            \<or> (FraudRule.ID (DefaultRules ! 2) = ''SUSPICIOUS_IP_ORIGIN''
                 \<and> assert_string (?ev0 ''origin'') = None)
            \<or> (FraudRule.ID (DefaultRules ! 2) = ''HIGH_VELOCITY_CUSTOMER''
                 \<and> assert_string (?ev0 ''customer_id'') = None)"
    by (simp add: DefaultRules_def)
  have g0: "(DefaultRules ! 0 \<in> set DefaultRules
               \<and> FraudRule.ID (DefaultRules ! 0) = ''HIGH_AMOUNT_TRANSACTION''
               \<and> assert_float64 (?ev1 ''amount'') = None)
            \<or> (FraudRule.ID (DefaultRules ! 0) = ''SUSPICIOUS_IP_ORIGIN''
                 \<and> assert_string (?ev1 ''origin'') = None)
            \<or> (FraudRule.ID (DefaultRules ! 0) = ''HIGH_VELOCITY_CUSTOMER''
                 \<and> assert_string (?ev1 ''customer_id'') = None)"
    by (simp add: DefaultRules_def)
  have g1: "(DefaultRules ! 1 \<in> set DefaultRules
               \<and> FraudRule.ID (DefaultRules ! 1) = ''HIGH_AMOUNT_TRANSACTION''
               \<and> assert_float64 (?ev2 ''amount'') = None)
            \<or> (FraudRule.ID (DefaultRules ! 1) = ''SUSPICIOUS_IP_ORIGIN''
                 \<and> assert_string (?ev2 ''origin'') = None)
            \<or> (FraudRule.ID (DefaultRules ! 1) = ''HIGH_VELOCITY_CUSTOMER''
                 \<and> assert_string (?ev2 ''customer_id'') = None)"
    by (simp add: DefaultRules_def)
  have hm: "\<forall>r\<in>set ([] @ [DefaultRules ! 1, DefaultRules ! 2]). Enabled r \<longrightarrow>
              (\<exists>b. isTriggered ?m r ?ev1 = Inr b \<and> (b \<longrightarrow> FraudRule.Decision r \<noteq> ''deny''))"
    by (auto simp add: detector_simps)
  have hu: "\<forall>r\<in>set ([DefaultRules ! 0] @ [DefaultRules ! 2]). Enabled r \<longrightarrow>
              (\<exists>b. isTriggered ?u r ?ev2 = Inr b \<and> (b \<longrightarrow> FraudRule.Decision r \<noteq> ''deny''))"
    by (auto simp add: detector_simps)
  have w1: "CheckTransaction ?m ?ev1 =
      (\<lparr>OverallScore = Finite 70,
        Decision = ''flag'',
        Reasons = [''Flags transactions originating from suspicious IP addresses.'']\<rparr>,
       None)"
    using CheckTransaction_missing_field_not_applicable [OF m0 g0] hm
    by (simp add: detector_simps)
  have w2: "CheckTransaction ?u ?ev2 =
      (\<lparr>OverallScore = Finite 50,
        Decision = ''flag'',
        Reasons = [''Flags transactions with amounts exceeding a high threshold.'']\<rparr>,
       None)"
    using CheckTransaction_missing_field_not_applicable [OF u1 g1] hu
    by (simp add: detector_simps)
  from CheckTransaction_missing_field_not_applicable [OF u0 f0, THEN conjunct1]
       CheckTransaction_missing_field_not_applicable [OF u1 f1, THEN conjunct1]
       CheckTransaction_missing_field_not_applicable [OF u2 f2, THEN conjunct1]
       w1 w2
  show ?thesis
    by blast
qed

section \<open>Failures of the evaluation\<close>

text \<open>
  C6, as the code has it. \<^verbatim>\<open>CheckTransaction\<close> returns an error only when, for an
  enabled rule, the fetch of the transaction history fails (rule
  \<^verbatim>\<open>HIGH_VELOCITY_CUSTOMER\<close>), the fetch of the IP data fails (rule
  \<^verbatim>\<open>SUSPICIOUS_IP_ORIGIN\<close>), or the rule's own predicate returns an error (any other
  rule); the error returned wraps the cause in a message that names the rule id, and
  the decision returned with it is the zero value. Conversely, when the loop reaches an
  enabled rule whose evaluation fails, that error is returned with the zero decision.
  No predicate of the default catalog returns an error. The in-memory repository never
  fails to return a history, and returns the empty one for a customer it has no
  records of.
\<close>

theorem CheckTransaction_failure:
  "(\<forall>e. snd (CheckTransaction d ev) = Some e \<longrightarrow>
      fst (CheckTransaction d ev) = FraudDecision_zero
      \<and> (\<exists>rule\<in>set (rules d). Enabled rule
           \<and> ((FraudRule.ID rule = ''HIGH_VELOCITY_CUSTOMER''
                 \<and> (\<exists>customerID repoErr.
                       assert_string (ev ''customer_id'') = Some customerID
                       \<and> GetTransactionHistory (repo d) customerID (24 * Hour) = Inl repoErr
                       \<and> e = Errorf_w (''failed to get transaction history for rule ''
                                          @ FraudRule.ID rule @ '': '') repoErr))
              \<or> (FraudRule.ID rule = ''SUSPICIOUS_IP_ORIGIN''
                   \<and> (\<exists>origin repoErr.
                         assert_string (ev ''origin'') = Some origin
                         \<and> GetIPData (repo d) origin = Inl repoErr
                         \<and> e = Errorf_w (''failed to get IP data for rule ''
                                            @ FraudRule.ID rule @ '': '') repoErr))
              \<or> (FraudRule.ID rule \<noteq> ''HIGH_VELOCITY_CUSTOMER''
                   \<and> FraudRule.ID rule \<noteq> ''SUSPICIOUS_IP_ORIGIN''
                   \<and> (\<exists>err. Predicate rule ev = Inl err
                         \<and> e = Errorf_w (''error evaluating rule ''
                                            @ FraudRule.ID rule @ '': '') err)))))
   \<and> (\<forall>pre rule post e.
         rules d = pre @ rule # post
         \<and> (\<forall>r\<in>set pre. Enabled r \<longrightarrow>
               (\<exists>b. isTriggered d r ev = Inr b \<and> (b \<longrightarrow> FraudRule.Decision r \<noteq> ''deny'')))
         \<and> Enabled rule \<and> isTriggered d rule ev = Inl e \<longrightarrow>
         CheckTransaction d ev = (FraudDecision_zero, Some e))
   \<and> (\<forall>rule\<in>set DefaultRules. \<exists>b. Predicate rule ev = Inr b)
   \<and> (\<exists>history. InMemory_GetTransactionHistory now r customerID lookback = Inr history)
   \<and> (transactions r customerID = None \<longrightarrow>
         InMemory_GetTransactionHistory now r customerID lookback = Inr [])"
proof (intro conjI allI impI)
  fix e assume e: "snd (CheckTransaction d ev) = Some e"
  show "fst (CheckTransaction d ev) = FraudDecision_zero"
    using CheckTransaction_error [OF e] by simp
  from CheckTransaction_error [OF e] obtain rule where
    "rule \<in> set (rules d)" "Enabled rule" "isTriggered d rule ev = Inl e" by blast
  then show "\<exists>rule\<in>set (rules d). Enabled rule
           \<and> ((FraudRule.ID rule = ''HIGH_VELOCITY_CUSTOMER''
                 \<and> (\<exists>customerID repoErr.
                       assert_string (ev ''customer_id'') = Some customerID
                       \<and> GetTransactionHistory (repo d) customerID (24 * Hour) = Inl repoErr
                       \<and> e = Errorf_w (''failed to get transaction history for rule ''
                                          @ FraudRule.ID rule @ '': '') repoErr))
              \<or> (FraudRule.ID rule = ''SUSPICIOUS_IP_ORIGIN''
                   \<and> (\<exists>origin repoErr.
                         assert_string (ev ''origin'') = Some origin
                         \<and> GetIPData (repo d) origin = Inl repoErr
                         \<and> e = Errorf_w (''failed to get IP data for rule ''
                                            @ FraudRule.ID rule @ '': '') repoErr))
              \<or> (FraudRule.ID rule \<noteq> ''HIGH_VELOCITY_CUSTOMER''
                   \<and> FraudRule.ID rule \<noteq> ''SUSPICIOUS_IP_ORIGIN''
                   \<and> (\<exists>err. Predicate rule ev = Inl err
                         \<and> e = Errorf_w (''error evaluating rule ''
                                            @ FraudRule.ID rule @ '': '') err)))"
    using isTriggered_error [of d rule ev e] by blast
next
  fix pre rule post e
  assume a: "rules d = pre @ rule # post
         \<and> (\<forall>r\<in>set pre. Enabled r \<longrightarrow>
               (\<exists>b. isTriggered d r ev = Inr b \<and> (b \<longrightarrow> FraudRule.Decision r \<noteq> ''deny'')))
         \<and> Enabled rule \<and> isTriggered d rule ev = Inl e"
  then have "rules_loop d ev (pre @ rule # post) (Finite 0)
           \<lparr>OverallScore = Finite 0, Decision = ''approve'', Reasons = []\<rparr> = Inl e"
    using rules_loop_fails [of pre d ev rule e post] by blast
  with a show "CheckTransaction d ev = (FraudDecision_zero, Some e)"
    by (simp add: CheckTransaction_def)
next
  show "\<forall>rule\<in>set DefaultRules. \<exists>b. Predicate rule ev = Inr b"
    by (auto simp add: DefaultRules_def split: option.splits)
next
  show "\<exists>history. InMemory_GetTransactionHistory now r customerID lookback = Inr history"
    by (simp add: InMemory_GetTransactionHistory_def Let_def split: option.splits)
next
  assume "transactions r customerID = None"
  then show "InMemory_GetTransactionHistory now r customerID lookback = Inr []"
    by (simp add: InMemory_GetTransactionHistory_def)
qed

theorem CheckTransaction_failure_witness:
  "CheckTransaction (NewRuleBasedFraudDetector unreachable_repository DefaultRules)
     scenario_event =
     (FraudDecision_zero,
      Some (wrapError ''failed to get IP data for rule SUSPICIOUS_IP_ORIGIN: connection refused''
              (errorString ''connection refused'')))
   \<and> InMemory_GetTransactionHistory 0 NewInMemoryFraudDataRepository ''c1'' (24 * Hour) = Inr []"
proof -
  let ?d = "NewRuleBasedFraudDetector unreachable_repository DefaultRules"
  let ?e = "wrapError ''failed to get IP data for rule SUSPICIOUS_IP_ORIGIN: connection refused''
              (errorString ''connection refused'')"
  have r: "rules ?d = [DefaultRules ! 0] @ (DefaultRules ! 1) # [DefaultRules ! 2]"
    by (simp add: NewRuleBasedFraudDetector_def DefaultRules_def)
  have pre: "\<forall>r\<in>set [DefaultRules ! 0]. Enabled r \<longrightarrow>
               (\<exists>b. isTriggered ?d r scenario_event = Inr b
                     \<and> (b \<longrightarrow> FraudRule.Decision r \<noteq> ''deny''))"
    by (auto simp add: detector_simps)
  have en: "Enabled (DefaultRules ! 1)"
    by (simp add: DefaultRules_def)
  have fl: "isTriggered ?d (DefaultRules ! 1) scenario_event = Inl ?e"
    by (simp add: detector_simps)
  have none: "transactions NewInMemoryFraudDataRepository ''c1'' = None"
    by (simp add: NewInMemoryFraudDataRepository_def)
  from CheckTransaction_failure
         [of ?d scenario_event 0 NewInMemoryFraudDataRepository "''c1''" "24 * Hour"]
       r pre en fl none
  show ?thesis
    by blast
qed

text \<open>
  The evaluation can fail although every fetch succeeds: with the default rules followed
  by a rule whose predicate returns an error, and the in-memory repository, the history
  of \<^verbatim>\<open>c2\<close> and the IP data of \<^verbatim>\<open>clean\<close> are fetched without error and
  \<^verbatim>\<open>CheckTransaction\<close> returns the predicate's error, wrapped.
\<close>

theorem CheckTransaction_failure_counterexample:
  "CheckTransaction
     (NewRuleBasedFraudDetector (InMemory_repository 0 NewInMemoryFraudDataRepository)
        (DefaultRules @ [scenario_failing_rule]))
     scenario_small_event =
     (FraudDecision_zero,
      Some (wrapError ''error evaluating rule CUSTOM_CHECK: unsupported event''
              (errorString ''unsupported event'')))
   \<and> GetTransactionHistory (InMemory_repository 0 NewInMemoryFraudDataRepository)
        ''c2'' (24 * Hour) = Inr []
   \<and> GetIPData (InMemory_repository 0 NewInMemoryFraudDataRepository) ''clean'' = Inr None"
  by (simp add: detector_simps)

section \<open>The default catalog on a high amount from a suspicious origin\<close>

text \<open>
  C8. With the default catalog and an in-memory repository that holds no records for
  customer \<^verbatim>\<open>c1\<close> (whatever it holds for the address), the event with customer
  \<^verbatim>\<open>c1\<close>, amount 1500, currency NGN and origin \<^verbatim>\<open>suspicious_ip\<close> gets the score
  120 = 50 + 70, the decision \<^verbatim>\<open>deny\<close> and the descriptions of
  \<^verbatim>\<open>HIGH_AMOUNT_TRANSACTION\<close> and \<^verbatim>\<open>SUSPICIOUS_IP_ORIGIN\<close>, in this order, as reasons.
\<close>

theorem CheckTransaction_default_scenario:
  assumes "transactions r ''c1'' = None"
  shows "CheckTransaction (NewRuleBasedFraudDetector (InMemory_repository now r) DefaultRules)
           [''customer_id'' \<mapsto> AString ''c1'', ''amount'' \<mapsto> AFloat64 (Finite 1500),
            ''currency'' \<mapsto> AString ''NGN'', ''origin'' \<mapsto> AString ''suspicious_ip''] =
         (\<lparr>OverallScore = Finite 120,
           Decision = ''deny'',
           Reasons = [''Flags transactions with amounts exceeding a high threshold.'',
                      ''Flags transactions originating from suspicious IP addresses.'']\<rparr>,
          None)"
  using assms
  by (simp add: CheckTransaction_def NewRuleBasedFraudDetector_def DefaultRules_def
        isTriggered_def InMemory_repository_def InMemory_GetTransactionHistory_def
        InMemory_GetIPData_def Let_def round64_def binary_exponent_def pow2_def
        round_half_even_def bit_length.simps float64_gt_def float64_ge_def float64_of_int_def
        split: option.splits)

theorem CheckTransaction_default_scenario_witness:
  "transactions NewInMemoryFraudDataRepository ''c1'' = None
   \<and> ipData NewInMemoryFraudDataRepository ''suspicious_ip'' = None
   \<and> CheckTransaction
       (NewRuleBasedFraudDetector (InMemory_repository 0 NewInMemoryFraudDataRepository)
          DefaultRules)
       [''customer_id'' \<mapsto> AString ''c1'', ''amount'' \<mapsto> AFloat64 (Finite 1500),
        ''currency'' \<mapsto> AString ''NGN'', ''origin'' \<mapsto> AString ''suspicious_ip''] =
     (\<lparr>OverallScore = Finite 120,
       Decision = ''deny'',
       Reasons = [''Flags transactions with amounts exceeding a high threshold.'',
                  ''Flags transactions originating from suspicious IP addresses.'']\<rparr>,
      None)"
proof -
  have none: "transactions NewInMemoryFraudDataRepository ''c1'' = None"
    by (simp add: NewInMemoryFraudDataRepository_def)
  from CheckTransaction_default_scenario [OF none, of 0] none
  show ?thesis
    by (simp add: NewInMemoryFraudDataRepository_def)
qed

section \<open>The risk-evaluation stub is constant\<close>

text \<open>
  C9. \<^verbatim>\<open>Evaluate\<close> returns the score 0.1 and the decision \<^verbatim>\<open>approve\<close> for every
  service value and every request: the result depends neither on the request nor on the
  detector and repository the service holds.
\<close>

theorem Evaluate_constant:
  "Evaluate s req = \<lparr>Score = 0.1, RiskEvaluateResponse.Decision = ''approve''\<rparr>
   \<and> Evaluate s req = Evaluate s' req'"
  by (simp add: Evaluate_def)

section \<open>Properties of the payment-link validator\<close>

lemma strings_Contains_middle: "strings_Contains (a @ x @ b) x"
  by (simp add: strings_Contains_def)

lemma strings_Contains_end: "strings_Contains (a @ b @ c @ x) x"
  unfolding strings_Contains_def sublist_def
  by (rule exI [of _ "a @ b @ c"], rule exI [of _ "[]"]) simp

lemma GetTransactionDetailsByReference_not_found:
  assumes "transactionServiceURL s \<noteq> []"
    and "http_NewRequest w (strings_TrimRight (transactionServiceURL s) ''/''
                              @ ''/transactions/'' @ reference) = None"
    and "http_Do w (strings_TrimRight (transactionServiceURL s) ''/''
                      @ ''/transactions/'' @ reference) = Inr resp"
    and "StatusCode resp = 404"
  shows "GetTransactionDetailsByReference w s reference sent =
           (Inl (errorString (''transaction with reference '' @ reference @ '' not found'')),
            sent @ [strings_TrimRight (transactionServiceURL s) ''/''
                      @ ''/transactions/'' @ reference])"
  using assms by (simp add: GetTransactionDetailsByReference_def Let_def)

lemma not_found_text:
  "strings_Contains (''transaction with reference '' @ reference @ '' not found'') ''not found''"
proof -
  have "''transaction with reference '' @ reference @ '' not found''
          = (''transaction with reference '' @ reference @ '' '') @ ''not found'' @ []"
    by simp
  then show ?thesis
    unfolding strings_Contains_def sublist_def by blast
qed

lemma ValidatePaymentLink_err_None:
  "snd (snd (fst (ValidatePaymentLink w s linkUrl sent))) = None"
  by (simp add: ValidatePaymentLink_def Let_def split: sum.splits prod.splits)

lemma ValidatePaymentLink_fetch_failed:
  assumes "url_Parse_Query w linkUrl = Inr q"
    and "Values_Get q ''ref'' \<noteq> []" and "Values_Get q ''merchant_id'' \<noteq> []"
    and "Values_Get q ''amount'' \<noteq> []" and "Values_Get q ''currency'' \<noteq> []"
    and "Atoi (Values_Get q ''merchant_id'') = Inr merchantID"
    and "ParseInt (Values_Get q ''amount'') = Inr amount"
    and "GetTransactionDetailsByReference w s (Values_Get q ''ref'') sent = (Inl e, sent')"
  shows "ValidatePaymentLink w s linkUrl sent =
           ((True,
             (if strings_Contains (Error e) ''not found''
              then ''Transaction reference '' @ Values_Get q ''ref'' @ '' not found for payment link''
              else ''Error fetching original transaction details: '' @ Error e),
             None), sent')"
  using assms by (simp add: ValidatePaymentLink_def Let_def)

lemma status_500_text:
  "\<not> strings_Contains ''transaction service returned status 500: internal error'' ''not found''"
  unfolding strings_Contains_def by code_simp

lemmas scenario_simps = scenario_world_def scenario_service_def scenario_transaction_def
  GetTransactionDetailsByReference_def Values_Get_def Atoi_def
  ParseInt_def ParseUint_def digit_def strings_TrimRight_def fmt_d_def decimal.simps
  Errorf_w_def

text \<open>
  C3, as the code has it. When the link parses, its four required parameters are present, the merchant id
  and the amount parse as integers and the authoritative transaction is fetched, the
  validator returns no error and compares, in this order and stopping at the first
  difference: the merchant ids, the amounts (as integers) and the currencies (as
  strings). A difference makes the link suspicious, with a reason that contains the
  link's value and the authoritative value; when the three agree the link is not
  suspicious and the reason is the string \<^verbatim>\<open>Payment link is legitimate\<close>, with
  a capital P.
\<close>

theorem ValidatePaymentLink_cross_check:
  assumes "url_Parse_Query w linkUrl = Inr q"
    and "Values_Get q ''ref'' \<noteq> []" and "Values_Get q ''merchant_id'' \<noteq> []"
    and "Values_Get q ''amount'' \<noteq> []" and "Values_Get q ''currency'' \<noteq> []"
    and "Atoi (Values_Get q ''merchant_id'') = Inr merchantID"
    and "ParseInt (Values_Get q ''amount'') = Inr amount"
    and "GetTransactionDetailsByReference w s (Values_Get q ''ref'') sent = (Inr tx, sent')"
  shows "case ValidatePaymentLink w s linkUrl sent of
           ((suspicious, reason, err), requests) \<Rightarrow>
             err = None \<and> requests = sent' \<and>
             (if TransactionResponse.MerchantID tx \<noteq> merchantID then
                suspicious
                \<and> reason = ''Merchant ID mismatch: link has '' @ fmt_d merchantID
                             @ '', original has '' @ fmt_d (TransactionResponse.MerchantID tx)
                \<and> strings_Contains reason (fmt_d merchantID)
                \<and> strings_Contains reason (fmt_d (TransactionResponse.MerchantID tx))
              else if TransactionResponse.Amount tx \<noteq> amount then
                suspicious
                \<and> reason = ''Amount mismatch: link has '' @ fmt_d amount
                             @ '', original has '' @ fmt_d (TransactionResponse.Amount tx)
                \<and> strings_Contains reason (fmt_d amount)
                \<and> strings_Contains reason (fmt_d (TransactionResponse.Amount tx))
              else if TransactionResponse.Currency tx \<noteq> Values_Get q ''currency'' then
                suspicious
                \<and> reason = ''Currency mismatch: link has '' @ Values_Get q ''currency''
                             @ '', original has '' @ TransactionResponse.Currency tx
                \<and> strings_Contains reason (Values_Get q ''currency'')
                \<and> strings_Contains reason (TransactionResponse.Currency tx)
              else \<not> suspicious \<and> reason = ''Payment link is legitimate'')"
proof -
  let ?m = "fmt_d merchantID" and ?M = "fmt_d (TransactionResponse.MerchantID tx)"
  let ?a = "fmt_d amount" and ?A = "fmt_d (TransactionResponse.Amount tx)"
  let ?c = "Values_Get q ''currency''" and ?C = "TransactionResponse.Currency tx"
  have m: "strings_Contains (''Merchant ID mismatch: link has '' @ ?m @ '', original has '' @ ?M) ?m"
    by (rule strings_Contains_middle)
  have M: "strings_Contains (''Merchant ID mismatch: link has '' @ ?m @ '', original has '' @ ?M) ?M"
    by (rule strings_Contains_end)
  have a: "strings_Contains (''Amount mismatch: link has '' @ ?a @ '', original has '' @ ?A) ?a"
    by (rule strings_Contains_middle)
  have A: "strings_Contains (''Amount mismatch: link has '' @ ?a @ '', original has '' @ ?A) ?A"
    by (rule strings_Contains_end)
  have c: "strings_Contains (''Currency mismatch: link has '' @ ?c @ '', original has '' @ ?C) ?c"
    by (rule strings_Contains_middle)
  have C: "strings_Contains (''Currency mismatch: link has '' @ ?c @ '', original has '' @ ?C) ?C"
    by (rule strings_Contains_end)
  from assms m M a A c C show ?thesis
    by (simp add: ValidatePaymentLink_def Let_def)
qed

theorem ValidatePaymentLink_cross_check_witness:
  "ValidatePaymentLink scenario_world scenario_service
     ''https://pay.example/pay?ref=tx1&merchant_id=5&amount=1000&currency=NGN'' [] =
     ((True, ''Merchant ID mismatch: link has 5, original has 9'', None),
      [''http://transaction-service:7000/transactions/tx1''])
   \<and> strings_Contains ''Merchant ID mismatch: link has 5, original has 9'' (fmt_d 5)
   \<and> strings_Contains ''Merchant ID mismatch: link has 5, original has 9'' (fmt_d 9)
   \<and> ValidatePaymentLink scenario_world scenario_service
     ''https://pay.example/pay?ref=tx2&merchant_id=7&amount=2500&currency=NGN'' [] =
     ((False, ''Payment link is legitimate'', None),
      [''http://transaction-service:7000/transactions/tx2''])"
proof -
  let ?q1 = "[''ref'' \<mapsto> [''tx1''], ''merchant_id'' \<mapsto> [''5''],
              ''amount'' \<mapsto> [''1000''], ''currency'' \<mapsto> [''NGN'']]"
  let ?q2 = "[''ref'' \<mapsto> [''tx2''], ''merchant_id'' \<mapsto> [''7''],
              ''amount'' \<mapsto> [''2500''], ''currency'' \<mapsto> [''NGN'']]"
  have p1: "url_Parse_Query scenario_world
              ''https://pay.example/pay?ref=tx1&merchant_id=5&amount=1000&currency=NGN'' = Inr ?q1"
    by (simp add: scenario_world_def)
  have p2: "url_Parse_Query scenario_world
              ''https://pay.example/pay?ref=tx2&merchant_id=7&amount=2500&currency=NGN'' = Inr ?q2"
    by (simp add: scenario_world_def)
  have f1: "GetTransactionDetailsByReference scenario_world scenario_service
              (Values_Get ?q1 ''ref'') [] =
            (Inr (scenario_transaction ''tx1'' 9 1000 ''NGN''),
             [''http://transaction-service:7000/transactions/tx1''])"
    by (simp add: scenario_simps)
  have f2: "GetTransactionDetailsByReference scenario_world scenario_service
              (Values_Get ?q2 ''ref'') [] =
            (Inr (scenario_transaction ''tx2'' 7 2500 ''NGN''),
             [''http://transaction-service:7000/transactions/tx2''])"
    by (simp add: scenario_simps)
  have w1: "case ValidatePaymentLink scenario_world scenario_service
              ''https://pay.example/pay?ref=tx1&merchant_id=5&amount=1000&currency=NGN'' [] of
              ((suspicious, reason, err), requests) \<Rightarrow>
                err = None \<and> requests = [''http://transaction-service:7000/transactions/tx1'']
                \<and> suspicious \<and> reason = ''Merchant ID mismatch: link has 5, original has 9''
                \<and> strings_Contains reason (fmt_d 5) \<and> strings_Contains reason (fmt_d 9)"
    using ValidatePaymentLink_cross_check [OF p1 _ _ _ _ _ _ f1, of 5 1000]
    by (simp add: scenario_simps)
  have w2: "case ValidatePaymentLink scenario_world scenario_service
              ''https://pay.example/pay?ref=tx2&merchant_id=7&amount=2500&currency=NGN'' [] of
              ((suspicious, reason, err), requests) \<Rightarrow>
                err = None \<and> requests = [''http://transaction-service:7000/transactions/tx2'']
                \<and> \<not> suspicious \<and> reason = ''Payment link is legitimate''"
    using ValidatePaymentLink_cross_check [OF p2 _ _ _ _ _ _ f2, of 7 2500]
    by (simp add: scenario_simps)
  from w1 w2 show ?thesis
    by (auto split: prod.splits)
qed

text \<open>
  The link to \<^verbatim>\<open>tx2\<close> agrees with the authoritative transaction in merchant id,
  amount and currency. The reason returned for it is \<^verbatim>\<open>Payment link is legitimate\<close>;
  it is not the string \<^verbatim>\<open>payment link is legitimate\<close>.
\<close>

theorem ValidatePaymentLink_cross_check_counterexample:
  "ValidatePaymentLink scenario_world scenario_service
     ''https://pay.example/pay?ref=tx2&merchant_id=7&amount=2500&currency=NGN'' [] =
     ((False, ''Payment link is legitimate'', None),
      [''http://transaction-service:7000/transactions/tx2''])
   \<and> fst (snd (fst (ValidatePaymentLink scenario_world scenario_service
        ''https://pay.example/pay?ref=tx2&merchant_id=7&amount=2500&currency=NGN'' [])))
       \<noteq> ''payment link is legitimate''"
  by (simp add: ValidatePaymentLink_def scenario_simps)

text \<open>
  C4. The error \<^verbatim>\<open>ValidatePaymentLink\<close> returns is nil on every input. An unparsable
  URL, a missing required parameter, a merchant id or an amount that does not parse,
  and a failed fetch of the authoritative transaction (among them the answer 404 for a
  reference the authority does not know) each make the link suspicious, with a reason.
\<close>

theorem ValidatePaymentLink_no_hard_error:
  "snd (snd (fst (ValidatePaymentLink w s linkUrl sent))) = None
   \<and> (\<forall>e.
         url_Parse_Query w linkUrl = Inl e \<longrightarrow>
         fst (ValidatePaymentLink w s linkUrl sent) = (True, ''Invalid payment link URL format'', None))
   \<and> (\<forall>q.
         url_Parse_Query w linkUrl = Inr q
         \<and> (Values_Get q ''ref'' = [] \<or> Values_Get q ''merchant_id'' = []
              \<or> Values_Get q ''amount'' = [] \<or> Values_Get q ''currency'' = []) \<longrightarrow>
         fst (ValidatePaymentLink w s linkUrl sent) =
           (True,
            ''Missing required parameters in payment link (ref, merchant_id, amount, currency)'',
            None))
   \<and> (\<forall>q e.
         url_Parse_Query w linkUrl = Inr q
         \<and> Values_Get q ''ref'' \<noteq> [] \<and> Values_Get q ''merchant_id'' \<noteq> []
         \<and> Values_Get q ''amount'' \<noteq> [] \<and> Values_Get q ''currency'' \<noteq> []
         \<and> Atoi (Values_Get q ''merchant_id'') = Inl e \<longrightarrow>
         fst (ValidatePaymentLink w s linkUrl sent) = (True, ''Invalid merchant_id format in payment link'', None))
   \<and> (\<forall>q merchantID e.
         url_Parse_Query w linkUrl = Inr q
         \<and> Values_Get q ''ref'' \<noteq> [] \<and> Values_Get q ''merchant_id'' \<noteq> []
         \<and> Values_Get q ''amount'' \<noteq> [] \<and> Values_Get q ''currency'' \<noteq> []
         \<and> Atoi (Values_Get q ''merchant_id'') = Inr merchantID
         \<and> ParseInt (Values_Get q ''amount'') = Inl e \<longrightarrow>
         fst (ValidatePaymentLink w s linkUrl sent) = (True, ''Invalid amount format in payment link'', None))
   \<and> (\<forall>q merchantID amount e sent'.
         url_Parse_Query w linkUrl = Inr q
         \<and> Values_Get q ''ref'' \<noteq> [] \<and> Values_Get q ''merchant_id'' \<noteq> []
         \<and> Values_Get q ''amount'' \<noteq> [] \<and> Values_Get q ''currency'' \<noteq> []
         \<and> Atoi (Values_Get q ''merchant_id'') = Inr merchantID
         \<and> ParseInt (Values_Get q ''amount'') = Inr amount
         \<and> GetTransactionDetailsByReference w s (Values_Get q ''ref'') sent = (Inl e, sent') \<longrightarrow>
         fst (ValidatePaymentLink w s linkUrl sent) =
           (True,
            (if strings_Contains (Error e) ''not found''
             then ''Transaction reference '' @ Values_Get q ''ref'' @ '' not found for payment link''
             else ''Error fetching original transaction details: '' @ Error e),
            None))
   \<and> (\<forall>q merchantID amount resp.
         url_Parse_Query w linkUrl = Inr q
         \<and> Values_Get q ''ref'' \<noteq> [] \<and> Values_Get q ''merchant_id'' \<noteq> []
         \<and> Values_Get q ''amount'' \<noteq> [] \<and> Values_Get q ''currency'' \<noteq> []
         \<and> Atoi (Values_Get q ''merchant_id'') = Inr merchantID
         \<and> ParseInt (Values_Get q ''amount'') = Inr amount
         \<and> transactionServiceURL s \<noteq> []
         \<and> http_NewRequest w (strings_TrimRight (transactionServiceURL s) ''/''
                                 @ ''/transactions/'' @ Values_Get q ''ref'') = None
         \<and> http_Do w (strings_TrimRight (transactionServiceURL s) ''/''
                         @ ''/transactions/'' @ Values_Get q ''ref'') = Inr resp
         \<and> StatusCode resp = 404 \<longrightarrow>
         fst (ValidatePaymentLink w s linkUrl sent) =
           (True,
            ''Transaction reference '' @ Values_Get q ''ref'' @ '' not found for payment link'',
            None))"
proof (intro conjI allI impI)
  show "snd (snd (fst (ValidatePaymentLink w s linkUrl sent))) = None"
    by (rule ValidatePaymentLink_err_None)
next
  fix e
  assume "url_Parse_Query w linkUrl = Inl e"
  then show "fst (ValidatePaymentLink w s linkUrl sent) = (True, ''Invalid payment link URL format'', None)"
    by (simp add: ValidatePaymentLink_def)
next
  fix q
  assume "url_Parse_Query w linkUrl = Inr q
         \<and> (Values_Get q ''ref'' = [] \<or> Values_Get q ''merchant_id'' = []
              \<or> Values_Get q ''amount'' = [] \<or> Values_Get q ''currency'' = [])"
  then show "fst (ValidatePaymentLink w s linkUrl sent) =
           (True,
            ''Missing required parameters in payment link (ref, merchant_id, amount, currency)'',
            None)"
    by (auto simp add: ValidatePaymentLink_def Let_def)
next
  fix q e
  assume "url_Parse_Query w linkUrl = Inr q
         \<and> Values_Get q ''ref'' \<noteq> [] \<and> Values_Get q ''merchant_id'' \<noteq> []
         \<and> Values_Get q ''amount'' \<noteq> [] \<and> Values_Get q ''currency'' \<noteq> []
         \<and> Atoi (Values_Get q ''merchant_id'') = Inl e"
  then show "fst (ValidatePaymentLink w s linkUrl sent) = (True, ''Invalid merchant_id format in payment link'', None)"
    by (simp add: ValidatePaymentLink_def Let_def)
next
  fix q merchantID e
  assume "url_Parse_Query w linkUrl = Inr q
         \<and> Values_Get q ''ref'' \<noteq> [] \<and> Values_Get q ''merchant_id'' \<noteq> []
         \<and> Values_Get q ''amount'' \<noteq> [] \<and> Values_Get q ''currency'' \<noteq> []
         \<and> Atoi (Values_Get q ''merchant_id'') = Inr merchantID
         \<and> ParseInt (Values_Get q ''amount'') = Inl e"
  then show "fst (ValidatePaymentLink w s linkUrl sent) = (True, ''Invalid amount format in payment link'', None)"
    by (simp add: ValidatePaymentLink_def Let_def)
next
  fix q merchantID amount e sent'
  assume "url_Parse_Query w linkUrl = Inr q
         \<and> Values_Get q ''ref'' \<noteq> [] \<and> Values_Get q ''merchant_id'' \<noteq> []
         \<and> Values_Get q ''amount'' \<noteq> [] \<and> Values_Get q ''currency'' \<noteq> []
         \<and> Atoi (Values_Get q ''merchant_id'') = Inr merchantID
         \<and> ParseInt (Values_Get q ''amount'') = Inr amount
         \<and> GetTransactionDetailsByReference w s (Values_Get q ''ref'') sent = (Inl e, sent')"
  then show "fst (ValidatePaymentLink w s linkUrl sent) =
           (True,
            (if strings_Contains (Error e) ''not found''
             then ''Transaction reference '' @ Values_Get q ''ref'' @ '' not found for payment link''
             else ''Error fetching original transaction details: '' @ Error e),
            None)"
    by (simp add: ValidatePaymentLink_fetch_failed [of w linkUrl q merchantID amount s sent e sent'])
next
  fix q merchantID amount resp
  assume a: "url_Parse_Query w linkUrl = Inr q
         \<and> Values_Get q ''ref'' \<noteq> [] \<and> Values_Get q ''merchant_id'' \<noteq> []
         \<and> Values_Get q ''amount'' \<noteq> [] \<and> Values_Get q ''currency'' \<noteq> []
         \<and> Atoi (Values_Get q ''merchant_id'') = Inr merchantID
         \<and> ParseInt (Values_Get q ''amount'') = Inr amount
         \<and> transactionServiceURL s \<noteq> []
         \<and> http_NewRequest w (strings_TrimRight (transactionServiceURL s) ''/''
                                 @ ''/transactions/'' @ Values_Get q ''ref'') = None
         \<and> http_Do w (strings_TrimRight (transactionServiceURL s) ''/''
                         @ ''/transactions/'' @ Values_Get q ''ref'') = Inr resp
         \<and> StatusCode resp = 404"
  let ?url = "strings_TrimRight (transactionServiceURL s) ''/''
                @ ''/transactions/'' @ Values_Get q ''ref''"
  from a have "GetTransactionDetailsByReference w s (Values_Get q ''ref'') sent =
                 (Inl (errorString (''transaction with reference '' @ Values_Get q ''ref''
                                      @ '' not found'')),
                  sent @ [?url])"
    by (simp add: GetTransactionDetailsByReference_not_found)
  with a show "fst (ValidatePaymentLink w s linkUrl sent) =
           (True,
            ''Transaction reference '' @ Values_Get q ''ref'' @ '' not found for payment link'',
            None)"
    using ValidatePaymentLink_fetch_failed [of w linkUrl q merchantID amount s sent
        "errorString (''transaction with reference '' @ Values_Get q ''ref'' @ '' not found'')"
        "sent @ [?url]"]
      not_found_text [of "Values_Get q ''ref''"]
    by simp
qed

theorem ValidatePaymentLink_no_hard_error_witness:
  "fst (ValidatePaymentLink scenario_world scenario_service ''http://[::1'' []) =
     (True, ''Invalid payment link URL format'', None)
   \<and> fst (ValidatePaymentLink scenario_world scenario_service
            ''https://pay.example/pay?ref=tx1&merchant_id=5&currency=NGN'' []) =
     (True, ''Missing required parameters in payment link (ref, merchant_id, amount, currency)'',
      None)
   \<and> fst (ValidatePaymentLink scenario_world scenario_service
            ''https://pay.example/pay?ref=tx1&merchant_id=five&amount=1000&currency=NGN'' []) =
     (True, ''Invalid merchant_id format in payment link'', None)
   \<and> fst (ValidatePaymentLink scenario_world scenario_service
            ''https://pay.example/pay?ref=tx1&merchant_id=5&amount=10.5&currency=NGN'' []) =
     (True, ''Invalid amount format in payment link'', None)
   \<and> fst (ValidatePaymentLink scenario_world scenario_service
            ''https://pay.example/pay?ref=tx9&merchant_id=5&amount=1000&currency=NGN'' []) =
     (True, ''Transaction reference tx9 not found for payment link'', None)
   \<and> fst (ValidatePaymentLink scenario_world scenario_service
            ''https://pay.example/pay?ref=tx5&merchant_id=5&amount=1000&currency=NGN'' []) =
     (True,
      ''Error fetching original transaction details: transaction service returned status 500: internal error'',
      None)"
proof -
  note T = ValidatePaymentLink_no_hard_error [of scenario_world scenario_service _ "[]"]
  note unparsable = T [THEN conjunct2, THEN conjunct1, rule_format]
  note missing = T [THEN conjunct2, THEN conjunct2, THEN conjunct1, rule_format]
  note bad_merchant = T [THEN conjunct2, THEN conjunct2, THEN conjunct2, THEN conjunct1, rule_format]
  note bad_amount =
    T [THEN conjunct2, THEN conjunct2, THEN conjunct2, THEN conjunct2, THEN conjunct1, rule_format]
  note fetch_failed =
    T [THEN conjunct2, THEN conjunct2, THEN conjunct2, THEN conjunct2, THEN conjunct2,
       THEN conjunct1, rule_format]
  note not_found =
    T [THEN conjunct2, THEN conjunct2, THEN conjunct2, THEN conjunct2, THEN conjunct2,
       THEN conjunct2, rule_format]
  have l0: "fst (ValidatePaymentLink scenario_world scenario_service ''http://[::1'' []) =
              (True, ''Invalid payment link URL format'', None)"
    by (rule unparsable [where e = "errorString ''parse error''"])
       (simp add: scenario_world_def)
  have l1: "fst (ValidatePaymentLink scenario_world scenario_service
                   ''https://pay.example/pay?ref=tx1&merchant_id=5&currency=NGN'' []) =
              (True,
               ''Missing required parameters in payment link (ref, merchant_id, amount, currency)'',
               None)"
    by (rule missing [where q = "[''ref'' \<mapsto> [''tx1''], ''merchant_id'' \<mapsto> [''5''],
                                   ''currency'' \<mapsto> [''NGN'']]"])
       (simp add: scenario_world_def Values_Get_def)
  have l2: "fst (ValidatePaymentLink scenario_world scenario_service
                   ''https://pay.example/pay?ref=tx1&merchant_id=five&amount=1000&currency=NGN'' []) =
              (True, ''Invalid merchant_id format in payment link'', None)"
    by (rule bad_merchant [where e = ErrSyntax and q = "[''ref'' \<mapsto> [''tx1''], ''merchant_id'' \<mapsto> [''five''],
         ''amount'' \<mapsto> [''1000''], ''currency'' \<mapsto> [''NGN'']]"])
       (simp add: scenario_simps)
  have l3: "fst (ValidatePaymentLink scenario_world scenario_service
                   ''https://pay.example/pay?ref=tx1&merchant_id=5&amount=10.5&currency=NGN'' []) =
              (True, ''Invalid amount format in payment link'', None)"
    by (rule bad_amount [where e = ErrSyntax and merchantID = 5 and q = "[''ref'' \<mapsto> [''tx1''], ''merchant_id'' \<mapsto> [''5''],
         ''amount'' \<mapsto> [''10.5''], ''currency'' \<mapsto> [''NGN'']]"])
       (simp add: scenario_simps)
  have "fst (ValidatePaymentLink scenario_world scenario_service
               ''https://pay.example/pay?ref=tx9&merchant_id=5&amount=1000&currency=NGN'' []) =
          (True,
           ''Transaction reference '' @ Values_Get 
              [''ref'' \<mapsto> [''tx9''], ''merchant_id'' \<mapsto> [''5''],
         ''amount'' \<mapsto> [''1000''], ''currency'' \<mapsto> [''NGN'']] ''ref'' @ '' not found for payment link'',
           None)"
    by (rule not_found [where merchantID = 5 and amount = 1000
                          and resp = "\<lparr>StatusCode = 404, Body = []\<rparr>"])
       (simp add: scenario_simps)
  then have l4: "fst (ValidatePaymentLink scenario_world scenario_service
                   ''https://pay.example/pay?ref=tx9&merchant_id=5&amount=1000&currency=NGN'' []) =
              (True, ''Transaction reference tx9 not found for payment link'', None)"
    by (simp add: Values_Get_def)
  have "fst (ValidatePaymentLink scenario_world scenario_service
               ''https://pay.example/pay?ref=tx5&merchant_id=5&amount=1000&currency=NGN'' []) =
          (True,
           (if strings_Contains
                 (Error (errorString ''transaction service returned status 500: internal error''))
                 ''not found''
            then ''Transaction reference '' @ Values_Get 
              [''ref'' \<mapsto> [''tx5''], ''merchant_id'' \<mapsto> [''5''],
         ''amount'' \<mapsto> [''1000''], ''currency'' \<mapsto> [''NGN'']] ''ref'' @ '' not found for payment link''
            else ''Error fetching original transaction details: ''
                   @ Error (errorString ''transaction service returned status 500: internal error'')),
           None)"
    by (rule fetch_failed [where merchantID = 5 and amount = 1000
                             and sent' = "[''http://transaction-service:7000/transactions/tx5'']"])
       (simp add: scenario_simps)
  then have l5: "fst (ValidatePaymentLink scenario_world scenario_service
                   ''https://pay.example/pay?ref=tx5&merchant_id=5&amount=1000&currency=NGN'' []) =
              (True,
               ''Error fetching original transaction details: transaction service returned status 500: internal error'',
               None)"
    by (simp add: status_500_text)
  from l0 l1 l2 l3 l4 l5 show ?thesis
    by simp
qed

text \<open>
  C7. When the link parses and one of \<^verbatim>\<open>ref\<close>, \<^verbatim>\<open>merchant_id\<close>, \<^verbatim>\<open>amount\<close>,
  \<^verbatim>\<open>currency\<close> is missing or empty, the link is suspicious, the reason names the
  missing required parameters, and the request log is returned unchanged: nothing is
  sent to the transaction authority, and the result is the same whatever the authority
  and the decoder would do.
\<close>

theorem ValidatePaymentLink_missing_parameters:
  assumes "url_Parse_Query w linkUrl = Inr q"
    and "Values_Get q ''ref'' = [] \<or> Values_Get q ''merchant_id'' = []
           \<or> Values_Get q ''amount'' = [] \<or> Values_Get q ''currency'' = []"
  shows "ValidatePaymentLink w s linkUrl sent =
           ((True,
             ''Missing required parameters in payment link (ref, merchant_id, amount, currency)'',
             None), sent)
         \<and> ValidatePaymentLink
             (w\<lparr>http_NewRequest := newRequest', http_Do := do', json_Decode := decode'\<rparr>)
             s linkUrl sent
           = ValidatePaymentLink w s linkUrl sent"
  using assms by (auto simp add: ValidatePaymentLink_def Let_def)

theorem ValidatePaymentLink_missing_parameters_witness:
  "ValidatePaymentLink scenario_world scenario_service
     ''https://pay.example/pay?ref=tx1&merchant_id=5&currency=NGN'' [] =
     ((True,
       ''Missing required parameters in payment link (ref, merchant_id, amount, currency)'',
       None), [])
   \<and> ValidatePaymentLink
       (scenario_world\<lparr>http_NewRequest := (\<lambda>u. None),
                        http_Do := (\<lambda>u. Inl (errorString ''connection refused'')),
                        json_Decode := (\<lambda>b. Inl (errorString ''unexpected end of JSON input''))\<rparr>)
       scenario_service ''https://pay.example/pay?ref=tx1&merchant_id=5&currency=NGN'' [] =
     ((True,
       ''Missing required parameters in payment link (ref, merchant_id, amount, currency)'',
       None), [])"
proof -
  let ?q = "[''ref'' \<mapsto> [''tx1''], ''merchant_id'' \<mapsto> [''5''], ''currency'' \<mapsto> [''NGN'']]"
  have p: "url_Parse_Query scenario_world
             ''https://pay.example/pay?ref=tx1&merchant_id=5&currency=NGN'' = Inr ?q"
    by (simp add: scenario_world_def)
  have m: "Values_Get ?q ''ref'' = [] \<or> Values_Get ?q ''merchant_id'' = []
             \<or> Values_Get ?q ''amount'' = [] \<or> Values_Get ?q ''currency'' = []"
    by (simp add: Values_Get_def)
  from ValidatePaymentLink_missing_parameters [OF p m]
  show ?thesis
    by simp
qed

end
